theory Spec2Isabelle
  imports Main "HOL-Library.Sublist" "HOL-Library.AList"
begin

section \<open>Python values, exceptions and the primitive operations the code uses\<close>

text \<open>
  The transformer works on JSON-like Python data (\<open>Dict[str, Any]\<close>). A value is
  \<open>None\<close>, a boolean, a number, a string, a list or a dictionary with string keys. A
  dictionary is an association list read with \<open>map_of\<close>; the dictionaries the code builds
  have distinct keys, in the order of the source's dict literal, and a list that repeats a
  key is read as the dictionary of its first entries. Numbers are integers: in
  every operation modelled here a float behaves as an integer does (it is no container, it
  cannot be iterated and it cannot be subscripted).
\<close>

datatype pyval =
    PNone
  | PBool bool
  | PInt int
  | PStr string
  | PList "pyval list"
  | PDict "(string \<times> pyval) list"

type_synonym pydict = "(string \<times> pyval) list"

text \<open>
  The exceptions that the modelled code can raise. \<open>ValueError\<close> carries its message.
  \<open>KeyError\<close> carries the missing key. \<open>TypeError\<close> is what Python raises when a value
  that is no container is tested with \<open>in\<close>, iterated, or subscripted with a string.
\<close>

datatype exn = ValueError string | KeyError string | TypeError | AttributeError

definition bind_exn :: "exn + 'a \<Rightarrow> ('a \<Rightarrow> exn + 'b) \<Rightarrow> exn + 'b" where
  "bind_exn m f = (case m of Inl e \<Rightarrow> Inl e | Inr x \<Rightarrow> f x)"

text \<open>\<open>d.get(k, default)\<close> on a dictionary.\<close>

definition dict_get :: "pydict \<Rightarrow> string \<Rightarrow> pyval \<Rightarrow> pyval" where
  "dict_get d k dflt = (case map_of d k of None \<Rightarrow> dflt | Some v \<Rightarrow> v)"

text \<open>\<open>v.get(k, default)\<close> on any value: only a dictionary has the method.\<close>

fun py_get :: "pyval \<Rightarrow> string \<Rightarrow> pyval \<Rightarrow> exn + pyval" where
  "py_get (PDict d) k dflt = Inr (dict_get d k dflt)"
| "py_get _ k dflt = Inl AttributeError"

text \<open>\<open>v[k]\<close> with a string \<open>k\<close>.\<close>

fun subscript :: "pyval \<Rightarrow> string \<Rightarrow> exn + pyval" where
  "subscript (PDict d) k = (case map_of d k of None \<Rightarrow> Inl (KeyError k) | Some v \<Rightarrow> Inr v)"
| "subscript _ k = Inl TypeError"

text \<open>
  \<open>k in v\<close> with a string \<open>k\<close>: a key of a dictionary, an element of a list, a substring
  of a string; a \<open>TypeError\<close> on anything else.
\<close>

fun contains :: "string \<Rightarrow> pyval \<Rightarrow> exn + bool" where
  "contains k (PDict d) = Inr (map_of d k \<noteq> None)"
| "contains k (PList xs) = Inr (PStr k \<in> set xs)"
| "contains k (PStr s) = Inr (sublist k s)"
| "contains k _ = Inl TypeError"

text \<open>
  \<open>for x in v\<close>: the elements of a list, the keys of a dictionary, the characters of a
  string; a \<open>TypeError\<close> on anything else.
\<close>

fun py_iter :: "pyval \<Rightarrow> exn + pyval list" where
  "py_iter (PList xs) = Inr xs"
| "py_iter (PDict d) = Inr (map (\<lambda>kv. PStr (fst kv)) d)"
| "py_iter (PStr s) = Inr (map (\<lambda>c. PStr [c]) s)"
| "py_iter _ = Inl TypeError"

text \<open>
  \<open>all(k in v for k in ks)\<close>: the generator stops at the first key that is absent, and
  an exception of \<open>in\<close> leaves it.
\<close>

fun all_in :: "string list \<Rightarrow> pyval \<Rightarrow> exn + bool" where
  "all_in [] v = Inr True"
| "all_in (k # ks) v =
     bind_exn (contains k v) (\<lambda>b. if b then all_in ks v else Inr False)"

text \<open>A list comprehension \<open>[f(x) for x in xs]\<close> whose body may raise.\<close>

fun comprehension :: "('a \<Rightarrow> exn + 'b) \<Rightarrow> 'a list \<Rightarrow> exn + 'b list" where
  "comprehension f [] = Inr []"
| "comprehension f (x # xs) =
     bind_exn (f x) (\<lambda>y. bind_exn (comprehension f xs) (\<lambda>ys. Inr (y # ys)))"

text \<open>
  The text that an f-string inserts for a value, \<open>str(v)\<close>. For a string it is the string
  itself. How Python prints the other values is not modelled: it is the parameter \<open>render\<close>,
  and every statement below holds for each choice of it.
\<close>

fun py_str :: "(pyval \<Rightarrow> string) \<Rightarrow> pyval \<Rightarrow> string" where
  "py_str render (PStr s) = s"
| "py_str render v = render v"

text \<open>\<open>{**a, **b}\<close>: the keys of \<open>b\<close> win, new keys are appended in the order of \<open>b\<close>.\<close>

definition dict_merge :: "pydict \<Rightarrow> pydict \<Rightarrow> pydict" where
  "dict_merge a b = fold (\<lambda>kv d. AList.update (fst kv) (snd kv) d) b a"

section \<open>SecurityTransformer\<close>

text \<open>
  The three readings of \<open>datetime.utcnow()\<close> that one call of the transformer makes:
  the stamp \<open>strftime('%Y%m%d%H%M%S')\<close> used for a generated rule id, and the two ISO
  texts stored as \<open>created_at\<close> and \<open>updated_at\<close>.
\<close>

record clock =
  id_stamp :: string
  created_iso :: string
  updated_iso :: string

definition supported_rule_types :: "pyval list" where
  "supported_rule_types = [PStr ''PII'', PStr ''GDPR'', PStr ''CUSTOM'']"

definition generate_rule_id :: "clock \<Rightarrow> string" where
  "generate_rule_id clk = ''rule_'' @ id_stamp clk"

text \<open>The body of the loop of \<open>_transform_conditions\<close>, for one condition.\<close>

definition transform_condition :: "pyval \<Rightarrow> exn + pyval" where
  "transform_condition condition =
     bind_exn (all_in [''field'', ''operator'', ''value''] condition) (\<lambda>ok.
       if \<not> ok then Inl (ValueError ''Invalid condition format'')
       else
         bind_exn (subscript condition ''field'') (\<lambda>f.
         bind_exn (subscript condition ''operator'') (\<lambda>op.
         bind_exn (subscript condition ''value'') (\<lambda>v.
         bind_exn (py_get condition ''description'' (PStr '''')) (\<lambda>d.
         bind_exn (py_get condition ''severity'' (PStr ''medium'')) (\<lambda>s.
           Inr (PDict
             [(''field'', f),
              (''operator'', op),
              (''value'', v),
              (''metadata'', PDict [(''description'', d), (''severity'', s)])])))))))"

text \<open>The loop: \<open>transformed_conditions\<close> is the accumulator, appended to at each step.\<close>

fun transform_conditions_loop :: "pyval list \<Rightarrow> pyval list \<Rightarrow> exn + pyval list" where
  "transform_conditions_loop [] transformed_conditions = Inr transformed_conditions"
| "transform_conditions_loop (condition # rest) transformed_conditions =
     bind_exn (transform_condition condition) (\<lambda>transformed_condition.
       transform_conditions_loop rest (transformed_conditions @ [transformed_condition]))"

definition transform_conditions :: "pyval \<Rightarrow> exn + pyval list" where
  "transform_conditions conditions =
     bind_exn (py_iter conditions) (\<lambda>items. transform_conditions_loop items [])"

text \<open>The body of the loop of \<open>_transform_actions\<close>, for one action.\<close>

definition transform_action :: "pyval \<Rightarrow> exn + pyval" where
  "transform_action action =
     bind_exn (contains ''type'' action) (\<lambda>present.
       if \<not> present then Inl (ValueError ''Invalid action format'')
       else
         bind_exn (subscript action ''type'') (\<lambda>t.
         bind_exn (py_get action ''parameters'' (PDict [])) (\<lambda>p.
         bind_exn (py_get action ''description'' (PStr '''')) (\<lambda>d.
         bind_exn (py_get action ''priority'' (PStr ''normal'')) (\<lambda>pr.
           Inr (PDict
             [(''type'', t),
              (''parameters'', p),
              (''metadata'', PDict [(''description'', d), (''priority'', pr)])]))))))"

fun transform_actions_loop :: "pyval list \<Rightarrow> pyval list \<Rightarrow> exn + pyval list" where
  "transform_actions_loop [] transformed_actions = Inr transformed_actions"
| "transform_actions_loop (action # rest) transformed_actions =
     bind_exn (transform_action action) (\<lambda>transformed_action.
       transform_actions_loop rest (transformed_actions @ [transformed_action]))"

definition transform_actions :: "pyval \<Rightarrow> exn + pyval list" where
  "transform_actions actions =
     bind_exn (py_iter actions) (\<lambda>items. transform_actions_loop items [])"

text \<open>
  \<open>transform_security_rule\<close>. The dict literal is evaluated entry by entry, so an
  exception of the conditions comes before one of the actions.
\<close>

definition transform_security_rule ::
  "(pyval \<Rightarrow> string) \<Rightarrow> clock \<Rightarrow> pydict \<Rightarrow> exn + pydict" where
  "transform_security_rule render clk rule_data =
     (case map_of rule_data ''rule_type'' of
        None \<Rightarrow> Inl (ValueError ''Missing required field: rule_type'')
      | Some rule_type \<Rightarrow>
          if rule_type \<notin> set supported_rule_types
          then Inl (ValueError (''Unsupported rule type: '' @ py_str render rule_type))
          else
            bind_exn (transform_conditions (dict_get rule_data ''conditions'' (PList []))) (\<lambda>cs.
            bind_exn (transform_actions (dict_get rule_data ''actions'' (PList []))) (\<lambda>acts.
              Inr
                [(''rule_id'', dict_get rule_data ''rule_id'' (PStr (generate_rule_id clk))),
                 (''rule_type'', rule_type),
                 (''asset_id'', dict_get rule_data ''asset_id'' PNone),
                 (''asset_type'', dict_get rule_data ''asset_type'' PNone),
                 (''conditions'', PList cs),
                 (''actions'', PList acts),
                 (''metadata'', PDict
                    [(''created_at'', PStr (created_iso clk)),
                     (''updated_at'', PStr (updated_iso clk)),
                     (''source'', PStr ''atlan''),
                     (''version'', PStr ''1.0'')])])))"

text \<open>
  \<open>validate_rule\<close>. Each loop returns \<open>False\<close> from the function at the first element that
  fails its test; the model's loops return whether every element passed.
\<close>

definition required_fields :: "string list" where
  "required_fields = [''rule_type'', ''asset_id'', ''conditions'', ''actions'']"

fun validate_conditions_loop :: "pyval list \<Rightarrow> exn + bool" where
  "validate_conditions_loop [] = Inr True"
| "validate_conditions_loop (condition # rest) =
     bind_exn (all_in [''field'', ''operator'', ''value''] condition) (\<lambda>ok.
       if \<not> ok then Inr False else validate_conditions_loop rest)"

fun validate_actions_loop :: "pyval list \<Rightarrow> exn + bool" where
  "validate_actions_loop [] = Inr True"
| "validate_actions_loop (action # rest) =
     bind_exn (contains ''type'' action) (\<lambda>present.
       if \<not> present then Inr False else validate_actions_loop rest)"

definition validate_rule :: "pydict \<Rightarrow> exn + bool" where
  "validate_rule rule =
     (if list_ex (\<lambda>field. map_of rule field = None) required_fields then Inr False
      else
        bind_exn (subscript (PDict rule) ''rule_type'') (\<lambda>rule_type.
          if rule_type \<notin> set supported_rule_types then Inr False
          else
            bind_exn (subscript (PDict rule) ''conditions'') (\<lambda>conditions.
            bind_exn (py_iter conditions) (\<lambda>cs.
            bind_exn (validate_conditions_loop cs) (\<lambda>conditions_ok.
              if \<not> conditions_ok then Inr False
              else
                bind_exn (subscript (PDict rule) ''actions'') (\<lambda>actions.
                bind_exn (py_iter actions) (\<lambda>acts.
                bind_exn (validate_actions_loop acts) (\<lambda>actions_ok.
                  if \<not> actions_ok then Inr False else Inr True))))))))"

text \<open>The downstream formats. The two condition formats and the two action formats of
  the source have the same body.\<close>

definition format_condition :: "pyval \<Rightarrow> exn + pyval" where
  "format_condition condition =
     bind_exn (subscript condition ''field'') (\<lambda>f.
     bind_exn (subscript condition ''operator'') (\<lambda>op.
     bind_exn (subscript condition ''value'') (\<lambda>v.
       Inr (PDict [(''column'', f), (''operator'', op), (''value'', v)]))))"

definition format_action :: "pyval \<Rightarrow> exn + pyval" where
  "format_action action =
     bind_exn (subscript action ''type'') (\<lambda>t.
     bind_exn (subscript action ''parameters'') (\<lambda>p.
       Inr (PDict [(''type'', t), (''parameters'', p)])))"

definition format_snowflake_conditions :: "pyval \<Rightarrow> exn + pyval list" where
  "format_snowflake_conditions conditions =
     bind_exn (py_iter conditions) (comprehension format_condition)"

definition format_databricks_conditions :: "pyval \<Rightarrow> exn + pyval list" where
  "format_databricks_conditions conditions =
     bind_exn (py_iter conditions) (comprehension format_condition)"

definition format_snowflake_actions :: "pyval \<Rightarrow> exn + pyval list" where
  "format_snowflake_actions actions =
     bind_exn (py_iter actions) (comprehension format_action)"

definition format_databricks_actions :: "pyval \<Rightarrow> exn + pyval list" where
  "format_databricks_actions actions =
     bind_exn (py_iter actions) (comprehension format_action)"

definition format_for_snowflake :: "(pyval \<Rightarrow> string) \<Rightarrow> pydict \<Rightarrow> exn + pydict" where
  "format_for_snowflake render rule =
     bind_exn (subscript (PDict rule) ''rule_id'') (\<lambda>rid.
     bind_exn (subscript (PDict rule) ''conditions'') (\<lambda>conditions.
     bind_exn (format_snowflake_conditions conditions) (\<lambda>cs.
     bind_exn (subscript (PDict rule) ''actions'') (\<lambda>actions.
     bind_exn (format_snowflake_actions actions) (\<lambda>acts.
       Inr
         [(''type'', PStr ''snowflake_policy''),
          (''name'', PStr (''atlan_'' @ py_str render rid)),
          (''database'', dict_get rule ''database'' (PStr ''PUBLIC'')),
          (''schema'', dict_get rule ''schema'' (PStr ''PUBLIC'')),
          (''table'', dict_get rule ''table'' PNone),
          (''conditions'', PList cs),
          (''actions'', PList acts)])))))"

definition format_for_databricks :: "(pyval \<Rightarrow> string) \<Rightarrow> pydict \<Rightarrow> exn + pydict" where
  "format_for_databricks render rule =
     bind_exn (subscript (PDict rule) ''rule_id'') (\<lambda>rid.
     bind_exn (subscript (PDict rule) ''conditions'') (\<lambda>conditions.
     bind_exn (format_databricks_conditions conditions) (\<lambda>cs.
     bind_exn (subscript (PDict rule) ''actions'') (\<lambda>actions.
     bind_exn (format_databricks_actions actions) (\<lambda>acts.
       Inr
         [(''type'', PStr ''databricks_policy''),
          (''name'', PStr (''atlan_'' @ py_str render rid)),
          (''catalog'', dict_get rule ''catalog'' (PStr ''hive_metastore'')),
          (''schema'', dict_get rule ''schema'' (PStr ''default'')),
          (''table'', dict_get rule ''table'' PNone),
          (''conditions'', PList cs),
          (''actions'', PList acts)])))))"

definition format_for_downstream ::
  "(pyval \<Rightarrow> string) \<Rightarrow> pydict \<Rightarrow> string \<Rightarrow> exn + pydict" where
  "format_for_downstream render rule target_system =
     (if target_system = ''snowflake'' then format_for_snowflake render rule
      else if target_system = ''databricks'' then format_for_databricks render rule
      else Inl (ValueError (''Unsupported target system: '' @ target_system)))"

section \<open>OutboundProcessor\<close>

text \<open>
  \<open>try: body except Exception as e: handler\<close>: every exception of the body reaches the
  handler.
\<close>

definition try_except :: "exn + 'a \<Rightarrow> (exn \<Rightarrow> exn + 'a) \<Rightarrow> exn + 'a" where
  "try_except body handler = (case body of Inl e \<Rightarrow> handler e | Inr x \<Rightarrow> Inr x)"

text \<open>
  \<open>_format_for_downstream_systems\<close>. The state of the function is the dictionary
  \<open>downstream_rules\<close> and what it has printed; a printed line
  \<open>f"Error formatting for Snowflake: {str(e)}"\<close> is kept as its fixed text and the
  exception.
\<close>

type_synonym fan_out = "pydict \<times> (string \<times> exn) list"

text \<open>
  The processor calls \<open>self.security_transformer.format_for_downstream\<close>, an object it
  holds (and that its tests replace); here it is the parameter \<open>formatter\<close>.
\<close>

definition format_for_downstream_systems ::
  "(pydict \<Rightarrow> string \<Rightarrow> exn + pydict) \<Rightarrow> pydict \<Rightarrow> exn + fan_out" where
  "format_for_downstream_systems formatter rule =
     bind_exn
       (try_except
          (bind_exn (formatter rule ''snowflake'') (\<lambda>snowflake_rule.
             Inr (AList.update ''snowflake'' (PDict snowflake_rule) [], [])))
          (\<lambda>e. Inr ([], [(''Error formatting for Snowflake: '', e)])))
       (\<lambda>st.
     bind_exn
       (try_except
          (bind_exn (formatter rule ''databricks'') (\<lambda>databricks_rule.
             Inr (AList.update ''databricks'' (PDict databricks_rule) (fst st), snd st)))
          (\<lambda>e. Inr (fst st, snd st @ [(''Error formatting for Databricks: '', e)])))
       (\<lambda>st. Inr st))"

text \<open>
  \<open>process_security_event\<close>. The storage and the event bus are collaborators outside
  the transformer: \<open>store_metadata\<close> stands for \<open>self.storage.store_metadata\<close> and
  \<open>publish_to_eventbridge\<close> for \<open>self._publish_to_eventbridge\<close>, which prints and raises
  again what \<open>put_events\<close> raises. What the function prints is left out of its result.
  \<open>store_and_fan_out\<close> is the part of the function after the validation of the
  transformed rule.
\<close>

definition store_and_fan_out ::
  "(pyval \<Rightarrow> string) \<Rightarrow> (pydict \<Rightarrow> exn + pyval) \<Rightarrow> (pydict \<Rightarrow> exn + unit) \<Rightarrow>
     pydict \<Rightarrow> exn + pydict" where
  "store_and_fan_out render store_metadata publish_to_eventbridge transformed_rule =
     bind_exn (subscript (PDict transformed_rule) ''rule_id'') (\<lambda>rid.
     bind_exn (subscript (PDict transformed_rule) ''metadata'') (\<lambda>md.
     bind_exn (subscript md ''created_at'') (\<lambda>created.
     bind_exn
       (store_metadata
          [(''event_id'', rid),
           (''event_type'', PStr ''security_rule''),
           (''timestamp'', created),
           (''source'', PStr ''atlan''),
           (''payload'', PDict transformed_rule)]) (\<lambda>event_id.
     bind_exn (format_for_downstream_systems (format_for_downstream render) transformed_rule)
       (\<lambda>downstream.
     bind_exn (publish_to_eventbridge transformed_rule) (\<lambda>_.
       Inr
         [(''event_id'', event_id),
          (''status'', PStr ''processed''),
          (''downstream_rules'', PDict (fst downstream))]))))))"

definition process_security_event ::
  "(pyval \<Rightarrow> string) \<Rightarrow> clock \<Rightarrow> (pydict \<Rightarrow> exn + pyval) \<Rightarrow> (pydict \<Rightarrow> exn + unit) \<Rightarrow>
     pydict \<Rightarrow> exn + pydict" where
  "process_security_event render clk store_metadata publish_to_eventbridge event =
     bind_exn (transform_security_rule render clk event) (\<lambda>transformed_rule.
     bind_exn (validate_rule transformed_rule) (\<lambda>valid.
       if \<not> valid then Inl (ValueError ''Invalid security rule'')
       else store_and_fan_out render store_metadata publish_to_eventbridge transformed_rule))"

section \<open>Shapes of rules\<close>

text \<open>
  The shapes that the statements below speak about: a value that is a mapping, a mapping
  that has given keys, a sequence whose elements have a property.
\<close>

fun is_mapping :: "pyval \<Rightarrow> bool" where
  "is_mapping (PDict d) = True"
| "is_mapping _ = False"

fun has_keys :: "string list \<Rightarrow> pyval \<Rightarrow> bool" where
  "has_keys ks (PDict d) = list_all (\<lambda>k. map_of d k \<noteq> None) ks"
| "has_keys ks _ = False"

fun sequence_of :: "(pyval \<Rightarrow> bool) \<Rightarrow> pyval \<Rightarrow> bool" where
  "sequence_of P (PList xs) = list_all P xs"
| "sequence_of P _ = False"

text \<open>
  A raw input is well formed when its conditions (an empty list when the key is absent)
  are a sequence of mappings with \<open>field\<close>, \<open>operator\<close> and \<open>value\<close>, and its actions a
  sequence of mappings with \<open>type\<close>.
\<close>

definition well_formed_raw :: "pydict \<Rightarrow> bool" where
  "well_formed_raw raw \<longleftrightarrow>
     sequence_of (has_keys [''field'', ''operator'', ''value''])
       (dict_get raw ''conditions'' (PList [])) \<and>
     sequence_of (has_keys [''type'']) (dict_get raw ''actions'' (PList []))"

text \<open>
  A canonical rule: the seven keys, a supported rule type, conditions that are a sequence
  of mappings with \<open>field\<close>, \<open>operator\<close>, \<open>value\<close> and \<open>metadata\<close>, actions that are a
  sequence of mappings with \<open>type\<close>, \<open>parameters\<close> and \<open>metadata\<close>.
\<close>

definition is_rule :: "pydict \<Rightarrow> bool" where
  "is_rule rule \<longleftrightarrow>
     has_keys [''rule_id'', ''rule_type'', ''asset_id'', ''asset_type'', ''conditions'',
       ''actions'', ''metadata''] (PDict rule) \<and>
     dict_get rule ''rule_type'' PNone \<in> set supported_rule_types \<and>
     sequence_of (has_keys [''field'', ''operator'', ''value'', ''metadata''])
       (dict_get rule ''conditions'' PNone) \<and>
     sequence_of (has_keys [''type'', ''parameters'', ''metadata''])
       (dict_get rule ''actions'' PNone)"

text \<open>
  A rule mapping is typed when its conditions and its actions, where it has them, are
  sequences of mappings; nothing is asked of the keys of those mappings.
\<close>

definition typed_rule :: "pydict \<Rightarrow> bool" where
  "typed_rule rule \<longleftrightarrow>
     (case map_of rule ''conditions'' of None \<Rightarrow> True | Some v \<Rightarrow> sequence_of is_mapping v) \<and>
     (case map_of rule ''actions'' of None \<Rightarrow> True | Some v \<Rightarrow> sequence_of is_mapping v)"

section \<open>Concrete inputs\<close>

text \<open>A rendering and a clock for the evaluations at concrete inputs.\<close>

definition render_mark :: "pyval \<Rightarrow> string" where
  "render_mark v = ''<value>''"

definition clock_noon :: clock where
  "clock_noon =
     \<lparr>id_stamp = ''20240101120000'',
      created_iso = ''2024-01-01T12:00:00.000001'',
      updated_iso = ''2024-01-01T12:00:00.000002''\<rparr>"

text \<open>The rule of the end-to-end scenario.\<close>

definition sample_raw :: pydict where
  "sample_raw =
     [(''rule_type'', PStr ''PII''),
      (''asset_id'', PStr ''asset_123''),
      (''asset_type'', PStr ''table''),
      (''conditions'', PList
         [PDict [(''field'', PStr ''email''), (''operator'', PStr ''contains''),
                 (''value'', PStr ''@'')]]),
      (''actions'', PList
         [PDict [(''type'', PStr ''mask''),
                 (''parameters'', PDict [(''mask_type'', PStr ''email'')])]])]"

text \<open>What the transformer returns for it at \<open>clock_noon\<close>.\<close>

definition sample_rule :: pydict where
  "sample_rule =
     [(''rule_id'', PStr ''rule_20240101120000''),
      (''rule_type'', PStr ''PII''),
      (''asset_id'', PStr ''asset_123''),
      (''asset_type'', PStr ''table''),
      (''conditions'', PList
         [PDict [(''field'', PStr ''email''), (''operator'', PStr ''contains''),
                 (''value'', PStr ''@''),
                 (''metadata'', PDict [(''description'', PStr ''''),
                                       (''severity'', PStr ''medium'')])]]),
      (''actions'', PList
         [PDict [(''type'', PStr ''mask''),
                 (''parameters'', PDict [(''mask_type'', PStr ''email'')]),
                 (''metadata'', PDict [(''description'', PStr ''''),
                                       (''priority'', PStr ''normal'')])]]),
      (''metadata'', PDict
         [(''created_at'', PStr ''2024-01-01T12:00:00.000001''),
          (''updated_at'', PStr ''2024-01-01T12:00:00.000002''),
          (''source'', PStr ''atlan''),
          (''version'', PStr ''1.0'')])]"

text \<open>Two raw rules whose only condition lacks a key: the first \<open>field\<close>, the second \<open>value\<close>.\<close>

definition raw_without_field :: pydict where
  "raw_without_field =
     [(''rule_type'', PStr ''PII''),
      (''conditions'', PList
         [PDict [(''operator'', PStr ''contains''), (''value'', PStr ''@'')]])]"

definition raw_without_value :: pydict where
  "raw_without_value =
     [(''rule_type'', PStr ''PII''),
      (''conditions'', PList
         [PDict [(''field'', PStr ''email''), (''operator'', PStr ''contains'')]])]"

text \<open>A formatter that fails for Snowflake alone.\<close>

definition snowflake_down :: "pydict \<Rightarrow> string \<Rightarrow> exn + pydict" where
  "snowflake_down rule target_system =
     (if target_system = ''snowflake'' then Inl (ValueError ''snowflake is down'')
      else format_for_downstream render_mark rule target_system)"

text \<open>A raw rule whose condition and action carry a description, a severity, a priority.\<close>

definition annotated_raw :: pydict where
  "annotated_raw =
     [(''rule_id'', PStr ''r1''),
      (''rule_type'', PStr ''GDPR''),
      (''asset_id'', PStr ''a1''),
      (''conditions'', PList
         [PDict [(''field'', PStr ''email''), (''operator'', PStr ''contains''),
                 (''value'', PStr ''@''), (''description'', PStr ''address column''),
                 (''severity'', PStr ''high'')]]),
      (''actions'', PList
         [PDict [(''type'', PStr ''mask''), (''description'', PStr ''hide it''),
                 (''priority'', PStr ''high'')]])]"

section \<open>Helper lemmas\<close>

lemma bind_exn_Inr_iff:
  "bind_exn m f = Inr y \<longleftrightarrow> (\<exists>x. m = Inr x \<and> f x = Inr y)"
  by (cases m) (simp_all add: bind_exn_def)

lemma bind_exn_simps:
  "bind_exn (Inl e) f = Inl e" "bind_exn (Inr x) f = f x"
  by (simp_all add: bind_exn_def)

lemma transform_condition_Inr:
  "transform_condition c = Inr z \<Longrightarrow>
     \<exists>d f op v. c = PDict d \<and> map_of d ''field'' = Some f \<and> map_of d ''operator'' = Some op
        \<and> map_of d ''value'' = Some v
        \<and> z = PDict [(''field'', f), (''operator'', op), (''value'', v),
               (''metadata'', PDict [(''description'', dict_get d ''description'' (PStr '''')),
                                     (''severity'', dict_get d ''severity'' (PStr ''medium''))])]"
  by (cases c) (auto simp: transform_condition_def bind_exn_def split: sum.splits if_splits option.splits)

lemma transform_condition_dict:
  "map_of d ''field'' = Some f \<Longrightarrow> map_of d ''operator'' = Some op \<Longrightarrow> map_of d ''value'' = Some v \<Longrightarrow>
   transform_condition (PDict d) = Inr (PDict [(''field'', f), (''operator'', op), (''value'', v),
               (''metadata'', PDict [(''description'', dict_get d ''description'' (PStr '''')),
                                     (''severity'', dict_get d ''severity'' (PStr ''medium''))])])"
  by (simp add: transform_condition_def bind_exn_def)

lemma transform_condition_missing:
  "\<not> has_keys [''field'', ''operator'', ''value''] (PDict d) \<Longrightarrow>
   transform_condition (PDict d) = Inl (ValueError ''Invalid condition format'')"
  by (auto simp: transform_condition_def bind_exn_def)

lemma transform_conditions_loop_iff:
  "transform_conditions_loop xs acc = Inr ys \<longleftrightarrow>
     (\<exists>zs. ys = acc @ zs \<and> list_all2 (\<lambda>x z. transform_condition x = Inr z) xs zs)"
proof (induction xs arbitrary: acc)
  case Nil
  then show ?case by auto
next
  case (Cons x xs)
  show ?case
  proof (cases "transform_condition x")
    case (Inl e)
    then show ?thesis by (auto simp: bind_exn_def list_all2_Cons1)
  next
    case (Inr z)
    then show ?thesis using Cons.IH [of "acc @ [z]"]
      by (auto simp: bind_exn_def list_all2_Cons1)
  qed
qed

lemma transform_action_Inr:
  "transform_action a = Inr z \<Longrightarrow>
     \<exists>d t. a = PDict d \<and> map_of d ''type'' = Some t
        \<and> z = PDict [(''type'', t), (''parameters'', dict_get d ''parameters'' (PDict [])),
               (''metadata'', PDict [(''description'', dict_get d ''description'' (PStr '''')),
                                     (''priority'', dict_get d ''priority'' (PStr ''normal''))])]"
  by (cases a) (auto simp: transform_action_def bind_exn_def split: sum.splits if_splits option.splits)

lemma transform_action_dict:
  "map_of d ''type'' = Some t \<Longrightarrow>
   transform_action (PDict d) = Inr (PDict [(''type'', t), (''parameters'', dict_get d ''parameters'' (PDict [])),
               (''metadata'', PDict [(''description'', dict_get d ''description'' (PStr '''')),
                                     (''priority'', dict_get d ''priority'' (PStr ''normal''))])])"
  by (simp add: transform_action_def bind_exn_def)

lemma transform_actions_loop_iff:
  "transform_actions_loop xs acc = Inr ys \<longleftrightarrow>
     (\<exists>zs. ys = acc @ zs \<and> list_all2 (\<lambda>x z. transform_action x = Inr z) xs zs)"
proof (induction xs arbitrary: acc)
  case Nil
  then show ?case by auto
next
  case (Cons x xs)
  show ?case
  proof (cases "transform_action x")
    case (Inl e)
    then show ?thesis by (auto simp: bind_exn_def list_all2_Cons1)
  next
    case (Inr z)
    then show ?thesis using Cons.IH [of "acc @ [z]"]
      by (auto simp: bind_exn_def list_all2_Cons1)
  qed
qed

lemma transform_conditions_Inr:
  "transform_conditions v = Inr cs \<longleftrightarrow>
     (\<exists>items. py_iter v = Inr items \<and> list_all2 (\<lambda>x z. transform_condition x = Inr z) items cs)"
  by (simp add: transform_conditions_def bind_exn_Inr_iff transform_conditions_loop_iff)

lemma transform_actions_Inr:
  "transform_actions v = Inr acts \<longleftrightarrow>
     (\<exists>items. py_iter v = Inr items \<and> list_all2 (\<lambda>x z. transform_action x = Inr z) items acts)"
  by (simp add: transform_actions_def bind_exn_Inr_iff transform_actions_loop_iff)

lemma transform_security_rule_Inr:
  assumes "transform_security_rule render clk raw = Inr rule"
  shows "\<exists>rt cs acts. map_of raw ''rule_type'' = Some rt \<and> rt \<in> set supported_rule_types
     \<and> transform_conditions (dict_get raw ''conditions'' (PList [])) = Inr cs
     \<and> transform_actions (dict_get raw ''actions'' (PList [])) = Inr acts
     \<and> rule =
         [(''rule_id'', dict_get raw ''rule_id'' (PStr (generate_rule_id clk))),
          (''rule_type'', rt),
          (''asset_id'', dict_get raw ''asset_id'' PNone),
          (''asset_type'', dict_get raw ''asset_type'' PNone),
          (''conditions'', PList cs),
          (''actions'', PList acts),
          (''metadata'', PDict
             [(''created_at'', PStr (created_iso clk)),
              (''updated_at'', PStr (updated_iso clk)),
              (''source'', PStr ''atlan''),
              (''version'', PStr ''1.0'')])]"
  using assms unfolding transform_security_rule_def
  by (auto simp: bind_exn_Inr_iff split: option.splits if_splits)

lemma has_keys_transform_condition:
  "has_keys [''field'', ''operator'', ''value''] c \<Longrightarrow> \<exists>z. transform_condition c = Inr z"
  by (cases c) (auto simp: transform_condition_dict)

lemma has_keys_transform_action:
  "has_keys [''type''] a \<Longrightarrow> \<exists>z. transform_action a = Inr z"
  by (cases a) (auto simp: transform_action_dict)

lemma list_all_ex_list_all2:
  "list_all (\<lambda>x. \<exists>z. f x = Inr z) xs \<Longrightarrow> \<exists>zs. list_all2 (\<lambda>x z. f x = Inr z) xs zs"
  by (induction xs) (auto simp: list_all2_Cons1)

lemma well_formed_conditions_transform:
  "sequence_of (has_keys [''field'', ''operator'', ''value'']) v \<Longrightarrow> \<exists>cs. transform_conditions v = Inr cs"
proof (cases v)
  case (PList xs)
  assume "sequence_of (has_keys [''field'', ''operator'', ''value'']) v"
  with PList have "list_all (\<lambda>x. \<exists>z. transform_condition x = Inr z) xs"
    by (auto simp: list_all_iff intro: has_keys_transform_condition)
  from list_all_ex_list_all2 [OF this] PList show ?thesis
    by (auto simp: transform_conditions_Inr)
qed auto

lemma well_formed_actions_transform:
  "sequence_of (has_keys [''type'']) v \<Longrightarrow> \<exists>acts. transform_actions v = Inr acts"
proof (cases v)
  case (PList xs)
  assume "sequence_of (has_keys [''type'']) v"
  with PList have "list_all (\<lambda>x. \<exists>z. transform_action x = Inr z) xs"
    by (auto simp: list_all_iff intro: has_keys_transform_action)
  from list_all_ex_list_all2 [OF this] PList show ?thesis
    by (auto simp: transform_actions_Inr)
qed auto

lemma canonical_conditions:
  "list_all2 (\<lambda>x z. transform_condition x = Inr z) items cs \<Longrightarrow>
     list_all (has_keys [''field'', ''operator'', ''value'', ''metadata'']) cs"
  by (induction rule: list_all2_induct) (auto dest!: transform_condition_Inr)

lemma canonical_actions:
  "list_all2 (\<lambda>x z. transform_action x = Inr z) items acts \<Longrightarrow>
     list_all (has_keys [''type'', ''parameters'', ''metadata'']) acts"
  by (induction rule: list_all2_induct) (auto dest!: transform_action_Inr)

lemma transform_is_rule:
  assumes "transform_security_rule render clk raw = Inr rule"
  shows "is_rule rule"
proof -
  from transform_security_rule_Inr [OF assms] obtain rt cs acts where
    rt: "rt \<in> set supported_rule_types"
    and cs: "transform_conditions (dict_get raw ''conditions'' (PList [])) = Inr cs"
    and acts: "transform_actions (dict_get raw ''actions'' (PList [])) = Inr acts"
    and rule: "rule =
         [(''rule_id'', dict_get raw ''rule_id'' (PStr (generate_rule_id clk))),
          (''rule_type'', rt),
          (''asset_id'', dict_get raw ''asset_id'' PNone),
          (''asset_type'', dict_get raw ''asset_type'' PNone),
          (''conditions'', PList cs),
          (''actions'', PList acts),
          (''metadata'', PDict
             [(''created_at'', PStr (created_iso clk)),
              (''updated_at'', PStr (updated_iso clk)),
              (''source'', PStr ''atlan''),
              (''version'', PStr ''1.0'')])]"
    by blast
  from cs have c: "list_all (has_keys [''field'', ''operator'', ''value'', ''metadata'']) cs"
    by (auto simp: transform_conditions_Inr dest: canonical_conditions)
  from acts have a: "list_all (has_keys [''type'', ''parameters'', ''metadata'']) acts"
    by (auto simp: transform_actions_Inr dest: canonical_actions)
  show ?thesis
    unfolding is_rule_def rule using rt c a by (simp add: dict_get_def)
qed

lemma sample_transform:
  "transform_security_rule render_mark clock_noon sample_raw = Inr sample_rule"
  by (simp add: transform_security_rule_def sample_raw_def sample_rule_def clock_noon_def
      supported_rule_types_def dict_get_def transform_conditions_def transform_actions_def
      transform_condition_def transform_action_def generate_rule_id_def bind_exn_def)

lemma comprehension_iff:
  "comprehension f xs = Inr ys \<longleftrightarrow> list_all2 (\<lambda>x y. f x = Inr y) xs ys"
proof (induction xs arbitrary: ys)
  case Nil
  then show ?case by auto
next
  case (Cons x xs)
  then show ?case
    by (cases "f x"; cases "comprehension f xs") (auto simp: bind_exn_def list_all2_Cons1)
qed

lemma has_keys_format_condition:
  "has_keys [''field'', ''operator'', ''value'', ''metadata''] c \<Longrightarrow> \<exists>y. format_condition c = Inr y"
  by (cases c) (auto simp: format_condition_def bind_exn_def)

lemma has_keys_format_action:
  "has_keys [''type'', ''parameters'', ''metadata''] a \<Longrightarrow> \<exists>y. format_action a = Inr y"
  by (cases a) (auto simp: format_action_def bind_exn_def)

lemma format_condition_Inr:
  "format_condition c = Inr y \<Longrightarrow>
     \<exists>f op v. subscript c ''field'' = Inr f \<and> subscript c ''operator'' = Inr op \<and>
       subscript c ''value'' = Inr v \<and>
       y = PDict [(''column'', f), (''operator'', op), (''value'', v)]"
  by (auto simp: format_condition_def bind_exn_Inr_iff)

lemma format_action_Inr:
  "format_action a = Inr y \<Longrightarrow>
     \<exists>t p. subscript a ''type'' = Inr t \<and> subscript a ''parameters'' = Inr p \<and>
       y = PDict [(''type'', t), (''parameters'', p)]"
  by (auto simp: format_action_def bind_exn_Inr_iff)

lemma is_rule_parts:
  assumes "is_rule rule"
  shows "\<exists>rid cs acts. map_of rule ''rule_id'' = Some rid \<and>
     map_of rule ''conditions'' = Some (PList cs) \<and>
     map_of rule ''actions'' = Some (PList acts) \<and>
     list_all (has_keys [''field'', ''operator'', ''value'', ''metadata'']) cs \<and>
     list_all (has_keys [''type'', ''parameters'', ''metadata'']) acts"
proof -
  from assms obtain rid vc va where k: "map_of rule ''rule_id'' = Some rid"
    "map_of rule ''conditions'' = Some vc" "map_of rule ''actions'' = Some va"
    by (auto simp: is_rule_def)
  with assms have s: "sequence_of (has_keys [''field'', ''operator'', ''value'', ''metadata'']) vc"
    "sequence_of (has_keys [''type'', ''parameters'', ''metadata'']) va"
    by (simp_all add: is_rule_def dict_get_def)
  from s(1) obtain cs where "vc = PList cs" by (cases vc) auto
  moreover from s(2) obtain acts where "va = PList acts" by (cases va) auto
  ultimately show ?thesis using k s by auto
qed

lemma is_rule_formats:
  assumes "is_rule rule"
  shows "\<exists>rid cs acts fcs facts. map_of rule ''rule_id'' = Some rid \<and>
     map_of rule ''conditions'' = Some (PList cs) \<and>
     map_of rule ''actions'' = Some (PList acts) \<and>
     list_all2 (\<lambda>c y. format_condition c = Inr y) cs fcs \<and>
     list_all2 (\<lambda>a y. format_action a = Inr y) acts facts \<and>
     format_for_snowflake render rule = Inr
         [(''type'', PStr ''snowflake_policy''),
          (''name'', PStr (''atlan_'' @ py_str render rid)),
          (''database'', dict_get rule ''database'' (PStr ''PUBLIC'')),
          (''schema'', dict_get rule ''schema'' (PStr ''PUBLIC'')),
          (''table'', dict_get rule ''table'' PNone),
          (''conditions'', PList fcs),
          (''actions'', PList facts)] \<and>
     format_for_databricks render rule = Inr
         [(''type'', PStr ''databricks_policy''),
          (''name'', PStr (''atlan_'' @ py_str render rid)),
          (''catalog'', dict_get rule ''catalog'' (PStr ''hive_metastore'')),
          (''schema'', dict_get rule ''schema'' (PStr ''default'')),
          (''table'', dict_get rule ''table'' PNone),
          (''conditions'', PList fcs),
          (''actions'', PList facts)]"
proof -
  from is_rule_parts [OF assms] obtain rid cs acts where
    k: "map_of rule ''rule_id'' = Some rid" "map_of rule ''conditions'' = Some (PList cs)"
      "map_of rule ''actions'' = Some (PList acts)"
    and c: "list_all (has_keys [''field'', ''operator'', ''value'', ''metadata'']) cs"
    and a: "list_all (has_keys [''type'', ''parameters'', ''metadata'']) acts"
    by blast
  from c have "list_all (\<lambda>x. \<exists>y. format_condition x = Inr y) cs"
    by (auto simp: list_all_iff intro: has_keys_format_condition)
  from list_all_ex_list_all2 [OF this] obtain fcs where
    fcs: "list_all2 (\<lambda>c y. format_condition c = Inr y) cs fcs" by blast
  from a have "list_all (\<lambda>x. \<exists>y. format_action x = Inr y) acts"
    by (auto simp: list_all_iff intro: has_keys_format_action)
  from list_all_ex_list_all2 [OF this] obtain facts where
    facts: "list_all2 (\<lambda>a y. format_action a = Inr y) acts facts" by blast
  from fcs have 1: "comprehension format_condition cs = Inr fcs" by (simp add: comprehension_iff)
  from facts have 2: "comprehension format_action acts = Inr facts" by (simp add: comprehension_iff)
  have "format_for_snowflake render rule = Inr
         [(''type'', PStr ''snowflake_policy''),
          (''name'', PStr (''atlan_'' @ py_str render rid)),
          (''database'', dict_get rule ''database'' (PStr ''PUBLIC'')),
          (''schema'', dict_get rule ''schema'' (PStr ''PUBLIC'')),
          (''table'', dict_get rule ''table'' PNone),
          (''conditions'', PList fcs),
          (''actions'', PList facts)]"
    using k 1 2
    by (simp add: format_for_snowflake_def format_snowflake_conditions_def
        format_snowflake_actions_def bind_exn_simps)
  moreover have "format_for_databricks render rule = Inr
         [(''type'', PStr ''databricks_policy''),
          (''name'', PStr (''atlan_'' @ py_str render rid)),
          (''catalog'', dict_get rule ''catalog'' (PStr ''hive_metastore'')),
          (''schema'', dict_get rule ''schema'' (PStr ''default'')),
          (''table'', dict_get rule ''table'' PNone),
          (''conditions'', PList fcs),
          (''actions'', PList facts)]"
    using k 1 2
    by (simp add: format_for_databricks_def format_databricks_conditions_def
        format_databricks_actions_def bind_exn_simps)
  ultimately show ?thesis using k fcs facts by blast
qed

lemma sample_is_rule: "is_rule sample_rule"
  by (simp add: is_rule_def sample_rule_def dict_get_def supported_rule_types_def)

lemma has_keys_all_in:
  "has_keys [''field'', ''operator'', ''value'', ''metadata''] c \<Longrightarrow>
     all_in [''field'', ''operator'', ''value''] c = Inr True"
  by (cases c) (auto simp: bind_exn_def)

lemma has_keys_contains_type:
  "has_keys [''type'', ''parameters'', ''metadata''] a \<Longrightarrow> contains ''type'' a = Inr True"
  by (cases a) auto

lemma validate_conditions_loop_True:
  "list_all (\<lambda>c. all_in [''field'', ''operator'', ''value''] c = Inr True) cs \<Longrightarrow>
     validate_conditions_loop cs = Inr True"
  by (induction cs) (simp_all add: bind_exn_def)

lemma validate_actions_loop_True:
  "list_all (\<lambda>a. contains ''type'' a = Inr True) acts \<Longrightarrow> validate_actions_loop acts = Inr True"
  by (induction acts) (simp_all add: bind_exn_def)

lemma validate_is_rule:
  assumes "is_rule rule"
  shows "validate_rule rule = Inr True"
proof -
  from is_rule_parts [OF assms] obtain rid cs acts where
    "map_of rule ''rule_id'' = Some rid"
    and k: "map_of rule ''conditions'' = Some (PList cs)" "map_of rule ''actions'' = Some (PList acts)"
    and c: "list_all (has_keys [''field'', ''operator'', ''value'', ''metadata'']) cs"
    and a: "list_all (has_keys [''type'', ''parameters'', ''metadata'']) acts"
    by blast
  from assms obtain rt aid where
    r: "map_of rule ''rule_type'' = Some rt" "map_of rule ''asset_id'' = Some aid"
    by (auto simp: is_rule_def)
  with assms have rt: "rt \<in> set supported_rule_types" by (simp add: is_rule_def dict_get_def)
  from c have "validate_conditions_loop cs = Inr True"
    by (intro validate_conditions_loop_True)
      (simp add: list_all_iff has_keys_all_in del: all_in.simps)
  moreover from a have "validate_actions_loop acts = Inr True"
    by (intro validate_actions_loop_True) (simp add: list_all_iff has_keys_contains_type)
  ultimately show ?thesis using k r rt
    by (simp add: validate_rule_def required_fields_def bind_exn_simps)
qed

lemma all_in_mapping:
  "all_in ks (PDict d) = Inr (list_all (\<lambda>k. map_of d k \<noteq> None) ks)"
  by (induction ks) (auto simp: bind_exn_def)

lemma validate_conditions_loop_mappings:
  "list_all is_mapping cs \<Longrightarrow>
     validate_conditions_loop cs = Inr (list_all (has_keys [''field'', ''operator'', ''value'']) cs)"
proof (induction cs)
  case Nil
  then show ?case by simp
next
  case (Cons c cs)
  then obtain d where "c = PDict d" by (cases c) auto
  with Cons show ?case by (auto simp: bind_exn_def)
qed

lemma validate_actions_loop_mappings:
  "list_all is_mapping acts \<Longrightarrow>
     validate_actions_loop acts = Inr (list_all (has_keys [''type'']) acts)"
proof (induction acts)
  case Nil
  then show ?case by simp
next
  case (Cons a acts)
  then obtain d where "a = PDict d" by (cases a) auto
  with Cons show ?case by (auto simp: bind_exn_def)
qed

lemma sequence_of_PList: "sequence_of P v \<Longrightarrow> \<exists>xs. v = PList xs \<and> list_all P xs"
  by (cases v) auto

lemma incomplete_condition_loop:
  "list_all is_mapping cs \<Longrightarrow>
   list_ex (\<lambda>c. \<not> has_keys [''field'', ''operator'', ''value''] c) cs \<Longrightarrow>
   transform_conditions_loop cs acc = Inl (ValueError ''Invalid condition format'')"
proof (induction cs arbitrary: acc)
  case Nil
  then show ?case by simp
next
  case (Cons c cs)
  then obtain d where d: "c = PDict d" by (cases c) auto
  show ?case
  proof (cases "has_keys [''field'', ''operator'', ''value''] c")
    case True
    then obtain z where "transform_condition c = Inr z"
      using has_keys_transform_condition by blast
    with True Cons show ?thesis by (simp add: bind_exn_simps)
  next
    case False
    with d have "transform_condition c = Inl (ValueError ''Invalid condition format'')"
      using transform_condition_missing by blast
    then show ?thesis by (simp add: bind_exn_simps)
  qed
qed

lemma sample_formats:
  "\<exists>p. format_for_downstream render_mark sample_rule ''databricks'' = Inr p"
  using is_rule_formats [OF sample_is_rule, of render_mark]
  by (auto simp: format_for_downstream_def)

lemma map_of_dict_merge_absent:
  "map_of b k = None \<Longrightarrow> map_of (dict_merge a b) k = map_of a k"
  unfolding dict_merge_def
proof (induction b arbitrary: a)
  case Nil
  then show ?case by simp
next
  case (Cons kv b)
  then have "fst kv \<noteq> k" "map_of b k = None"
    by (cases kv; simp split: if_splits)+
  with Cons.IH [of "AList.update (fst kv) (snd kv) a"] show ?case
    by (simp add: update_conv')
qed

lemma second_pass_condition:
  assumes "transform_condition x = Inr z"
  shows "\<exists>z' d s. transform_condition z = Inr z' \<and>
     py_get x ''description'' (PStr '''') = Inr d \<and>
     py_get x ''severity'' (PStr ''medium'') = Inr s \<and>
     subscript z ''metadata'' = Inr (PDict [(''description'', d), (''severity'', s)]) \<and>
     subscript z' ''metadata'' =
       Inr (PDict [(''description'', PStr ''''), (''severity'', PStr ''medium'')])"
proof -
  from transform_condition_Inr [OF assms] obtain m f op v where
    x: "x = PDict m" and "map_of m ''field'' = Some f" and z: "z = PDict
       [(''field'', f), (''operator'', op), (''value'', v),
        (''metadata'', PDict [(''description'', dict_get m ''description'' (PStr '''')),
                              (''severity'', dict_get m ''severity'' (PStr ''medium''))])]"
    by blast
  show ?thesis unfolding x z
    by (simp add: transform_condition_def bind_exn_def dict_get_def)
qed

lemma second_pass_action:
  assumes "transform_action x = Inr z"
  shows "\<exists>z' d p. transform_action z = Inr z' \<and>
     py_get x ''description'' (PStr '''') = Inr d \<and>
     py_get x ''priority'' (PStr ''normal'') = Inr p \<and>
     subscript z ''metadata'' = Inr (PDict [(''description'', d), (''priority'', p)]) \<and>
     subscript z' ''metadata'' =
       Inr (PDict [(''description'', PStr ''''), (''priority'', PStr ''normal'')])"
proof -
  from transform_action_Inr [OF assms] obtain m t where
    x: "x = PDict m" and "map_of m ''type'' = Some t" and z: "z = PDict
       [(''type'', t), (''parameters'', dict_get m ''parameters'' (PDict [])),
        (''metadata'', PDict [(''description'', dict_get m ''description'' (PStr '''')),
                              (''priority'', dict_get m ''priority'' (PStr ''normal''))])]"
    by blast
  show ?thesis unfolding x z
    by (simp add: transform_action_def bind_exn_def dict_get_def)
qed

lemma two_pass_conditions:
  assumes "list_all2 (\<lambda>x z. transform_condition x = Inr z) rcs cs1"
  shows "\<exists>cs2. list_all2 (\<lambda>z z'. transform_condition z = Inr z') cs1 cs2 \<and>
     (\<forall>i<length rcs. \<exists>d s.
        py_get (rcs ! i) ''description'' (PStr '''') = Inr d \<and>
        py_get (rcs ! i) ''severity'' (PStr ''medium'') = Inr s \<and>
        subscript (cs1 ! i) ''metadata'' =
          Inr (PDict [(''description'', d), (''severity'', s)]) \<and>
        subscript (cs2 ! i) ''metadata'' =
          Inr (PDict [(''description'', PStr ''''), (''severity'', PStr ''medium'')]))"
proof -
  have len: "length rcs = length cs1" using assms by (rule list_all2_lengthD)
  have step: "transform_condition (rcs ! i) = Inr (cs1 ! i)" if "i < length rcs" for i
    using assms that by (auto dest: list_all2_nthD)
  have "list_all (\<lambda>z. \<exists>z'. transform_condition z = Inr z') cs1"
    unfolding list_all_length
  proof (intro allI impI)
    fix i assume "i < length cs1"
    with step [of i] len second_pass_condition [of "rcs ! i" "cs1 ! i"]
    show "\<exists>z'. transform_condition (cs1 ! i) = Inr z'" by auto
  qed
  from list_all_ex_list_all2 [OF this] obtain cs2 where
    cs2: "list_all2 (\<lambda>z z'. transform_condition z = Inr z') cs1 cs2" by blast
  have "\<exists>d s.
        py_get (rcs ! i) ''description'' (PStr '''') = Inr d \<and>
        py_get (rcs ! i) ''severity'' (PStr ''medium'') = Inr s \<and>
        subscript (cs1 ! i) ''metadata'' =
          Inr (PDict [(''description'', d), (''severity'', s)]) \<and>
        subscript (cs2 ! i) ''metadata'' =
          Inr (PDict [(''description'', PStr ''''), (''severity'', PStr ''medium'')])"
    if "i < length rcs" for i
  proof -
    from that len cs2 have "transform_condition (cs1 ! i) = Inr (cs2 ! i)"
      by (auto dest: list_all2_nthD)
    with second_pass_condition [OF step [OF that]] show ?thesis by auto
  qed
  with cs2 show ?thesis by blast
qed

lemma two_pass_actions:
  assumes "list_all2 (\<lambda>x z. transform_action x = Inr z) racts acts1"
  shows "\<exists>acts2. list_all2 (\<lambda>z z'. transform_action z = Inr z') acts1 acts2 \<and>
     (\<forall>i<length racts. \<exists>d p.
        py_get (racts ! i) ''description'' (PStr '''') = Inr d \<and>
        py_get (racts ! i) ''priority'' (PStr ''normal'') = Inr p \<and>
        subscript (acts1 ! i) ''metadata'' =
          Inr (PDict [(''description'', d), (''priority'', p)]) \<and>
        subscript (acts2 ! i) ''metadata'' =
          Inr (PDict [(''description'', PStr ''''), (''priority'', PStr ''normal'')]))"
proof -
  have len: "length racts = length acts1" using assms by (rule list_all2_lengthD)
  have step: "transform_action (racts ! i) = Inr (acts1 ! i)" if "i < length racts" for i
    using assms that by (auto dest: list_all2_nthD)
  have "list_all (\<lambda>z. \<exists>z'. transform_action z = Inr z') acts1"
    unfolding list_all_length
  proof (intro allI impI)
    fix i assume "i < length acts1"
    with step [of i] len second_pass_action [of "racts ! i" "acts1 ! i"]
    show "\<exists>z'. transform_action (acts1 ! i) = Inr z'" by auto
  qed
  from list_all_ex_list_all2 [OF this] obtain acts2 where
    acts2: "list_all2 (\<lambda>z z'. transform_action z = Inr z') acts1 acts2" by blast
  have "\<exists>d p.
        py_get (racts ! i) ''description'' (PStr '''') = Inr d \<and>
        py_get (racts ! i) ''priority'' (PStr ''normal'') = Inr p \<and>
        subscript (acts1 ! i) ''metadata'' =
          Inr (PDict [(''description'', d), (''priority'', p)]) \<and>
        subscript (acts2 ! i) ''metadata'' =
          Inr (PDict [(''description'', PStr ''''), (''priority'', PStr ''normal'')])"
    if "i < length racts" for i
  proof -
    from that len acts2 have "transform_action (acts1 ! i) = Inr (acts2 ! i)"
      by (auto dest: list_all2_nthD)
    with second_pass_action [OF step [OF that]] show ?thesis by auto
  qed
  with acts2 show ?thesis by blast
qed

section \<open>The claims\<close>

subsection \<open>C1: the rule type gate of the transformer\<close>

text \<open>
  C1. For every raw input mapping, \<open>transform_security_rule\<close> raises a \<open>ValueError\<close>
  (the validation error of the code) when the key \<open>rule_type\<close> is absent, and when its
  value is not one of \<open>PII\<close>, \<open>GDPR\<close>, \<open>CUSTOM\<close>. When the value is one of the three and
  the conditions and actions of the input are well formed, it returns a canonical rule, and
  the rule is this one: the rule id of the input, or the generated id where the input has
  none; the rule type of the input; its asset id and asset type, or \<open>None\<close>; one canonical
  condition for each raw condition and one canonical action for each raw action, in their
  order; and the metadata of the two clock readings, the source \<open>atlan\<close> and the version
  \<open>1.0\<close>.
\<close>

theorem transform_rule_type_gate:
  "(map_of raw ''rule_type'' = None \<longrightarrow>
      transform_security_rule render clk raw =
        Inl (ValueError ''Missing required field: rule_type'')) \<and>
   (\<forall>rt. map_of raw ''rule_type'' = Some rt \<and> rt \<notin> {PStr ''PII'', PStr ''GDPR'', PStr ''CUSTOM''} \<longrightarrow>
      transform_security_rule render clk raw =
        Inl (ValueError (''Unsupported rule type: '' @ py_str render rt))) \<and>
   (\<forall>rt. map_of raw ''rule_type'' = Some rt \<and> rt \<in> {PStr ''PII'', PStr ''GDPR'', PStr ''CUSTOM''} \<and>
      well_formed_raw raw \<longrightarrow>
      (\<exists>rule rcs racts cs acts.
         transform_security_rule render clk raw = Inr rule \<and> is_rule rule \<and>
         (case map_of raw ''conditions'' of None \<Rightarrow> PList [] | Some v \<Rightarrow> v) = PList rcs \<and>
         (case map_of raw ''actions'' of None \<Rightarrow> PList [] | Some v \<Rightarrow> v) = PList racts \<and>
         list_all2 (\<lambda>rc c. \<exists>d f op v.
             rc = PDict d \<and> map_of d ''field'' = Some f \<and> map_of d ''operator'' = Some op \<and>
             map_of d ''value'' = Some v \<and>
             c = PDict
               [(''field'', f), (''operator'', op), (''value'', v),
                (''metadata'', PDict
                   [(''description'',
                     case map_of d ''description'' of None \<Rightarrow> PStr '''' | Some x \<Rightarrow> x),
                    (''severity'',
                     case map_of d ''severity'' of None \<Rightarrow> PStr ''medium'' | Some x \<Rightarrow> x)])])
           rcs cs \<and>
         list_all2 (\<lambda>ra a. \<exists>d t.
             ra = PDict d \<and> map_of d ''type'' = Some t \<and>
             a = PDict
               [(''type'', t),
                (''parameters'',
                 case map_of d ''parameters'' of None \<Rightarrow> PDict [] | Some x \<Rightarrow> x),
                (''metadata'', PDict
                   [(''description'',
                     case map_of d ''description'' of None \<Rightarrow> PStr '''' | Some x \<Rightarrow> x),
                    (''priority'',
                     case map_of d ''priority'' of None \<Rightarrow> PStr ''normal'' | Some x \<Rightarrow> x)])])
           racts acts \<and>
         rule =
           [(''rule_id'',
             case map_of raw ''rule_id'' of None \<Rightarrow> PStr (''rule_'' @ id_stamp clk) | Some v \<Rightarrow> v),
            (''rule_type'', rt),
            (''asset_id'', case map_of raw ''asset_id'' of None \<Rightarrow> PNone | Some v \<Rightarrow> v),
            (''asset_type'', case map_of raw ''asset_type'' of None \<Rightarrow> PNone | Some v \<Rightarrow> v),
            (''conditions'', PList cs),
            (''actions'', PList acts),
            (''metadata'', PDict
               [(''created_at'', PStr (created_iso clk)),
                (''updated_at'', PStr (updated_iso clk)),
                (''source'', PStr ''atlan''),
                (''version'', PStr ''1.0'')])]))"
proof (intro conjI allI impI)
  assume "map_of raw ''rule_type'' = None"
  then show "transform_security_rule render clk raw =
        Inl (ValueError ''Missing required field: rule_type'')"
    by (simp add: transform_security_rule_def)
next
  fix rt
  assume "map_of raw ''rule_type'' = Some rt \<and> rt \<notin> {PStr ''PII'', PStr ''GDPR'', PStr ''CUSTOM''}"
  then show "transform_security_rule render clk raw =
        Inl (ValueError (''Unsupported rule type: '' @ py_str render rt))"
    by (simp add: transform_security_rule_def supported_rule_types_def)
next
  fix rt
  assume h: "map_of raw ''rule_type'' = Some rt \<and> rt \<in> {PStr ''PII'', PStr ''GDPR'', PStr ''CUSTOM''} \<and>
      well_formed_raw raw"
  then obtain rcs racts where
    raw: "dict_get raw ''conditions'' (PList []) = PList rcs"
      "dict_get raw ''actions'' (PList []) = PList racts"
    unfolding well_formed_raw_def by (blast dest: sequence_of_PList)
  from h obtain cs where cs: "transform_conditions (dict_get raw ''conditions'' (PList [])) = Inr cs"
    using well_formed_conditions_transform unfolding well_formed_raw_def by blast
  from h obtain acts where acts: "transform_actions (dict_get raw ''actions'' (PList [])) = Inr acts"
    using well_formed_actions_transform unfolding well_formed_raw_def by blast
  from cs raw(1) have "list_all2 (\<lambda>x z. transform_condition x = Inr z) rcs cs"
    by (simp add: transform_conditions_Inr)
  then have c: "list_all2 (\<lambda>rc c. \<exists>d f op v.
             rc = PDict d \<and> map_of d ''field'' = Some f \<and> map_of d ''operator'' = Some op \<and>
             map_of d ''value'' = Some v \<and>
             c = PDict
               [(''field'', f), (''operator'', op), (''value'', v),
                (''metadata'', PDict
                   [(''description'',
                     case map_of d ''description'' of None \<Rightarrow> PStr '''' | Some x \<Rightarrow> x),
                    (''severity'',
                     case map_of d ''severity'' of None \<Rightarrow> PStr ''medium'' | Some x \<Rightarrow> x)])])
           rcs cs"
    by (rule list_all2_mono) (drule transform_condition_Inr, simp add: dict_get_def)
  from acts raw(2) have "list_all2 (\<lambda>x z. transform_action x = Inr z) racts acts"
    by (simp add: transform_actions_Inr)
  then have a: "list_all2 (\<lambda>ra a. \<exists>d t.
             ra = PDict d \<and> map_of d ''type'' = Some t \<and>
             a = PDict
               [(''type'', t),
                (''parameters'',
                 case map_of d ''parameters'' of None \<Rightarrow> PDict [] | Some x \<Rightarrow> x),
                (''metadata'', PDict
                   [(''description'',
                     case map_of d ''description'' of None \<Rightarrow> PStr '''' | Some x \<Rightarrow> x),
                    (''priority'',
                     case map_of d ''priority'' of None \<Rightarrow> PStr ''normal'' | Some x \<Rightarrow> x)])])
           racts acts"
    by (rule list_all2_mono) (drule transform_action_Inr, simp add: dict_get_def)
  from h have "rt \<in> set supported_rule_types" by (simp add: supported_rule_types_def)
  with h cs acts have t: "transform_security_rule render clk raw = Inr
           [(''rule_id'',
             case map_of raw ''rule_id'' of None \<Rightarrow> PStr (''rule_'' @ id_stamp clk) | Some v \<Rightarrow> v),
            (''rule_type'', rt),
            (''asset_id'', case map_of raw ''asset_id'' of None \<Rightarrow> PNone | Some v \<Rightarrow> v),
            (''asset_type'', case map_of raw ''asset_type'' of None \<Rightarrow> PNone | Some v \<Rightarrow> v),
            (''conditions'', PList cs),
            (''actions'', PList acts),
            (''metadata'', PDict
               [(''created_at'', PStr (created_iso clk)),
                (''updated_at'', PStr (updated_iso clk)),
                (''source'', PStr ''atlan''),
                (''version'', PStr ''1.0'')])]"
    by (simp add: transform_security_rule_def bind_exn_simps dict_get_def generate_rule_id_def
        split: option.splits)
  from transform_is_rule [OF t] have r: "is_rule
           [(''rule_id'',
             case map_of raw ''rule_id'' of None \<Rightarrow> PStr (''rule_'' @ id_stamp clk) | Some v \<Rightarrow> v),
            (''rule_type'', rt),
            (''asset_id'', case map_of raw ''asset_id'' of None \<Rightarrow> PNone | Some v \<Rightarrow> v),
            (''asset_type'', case map_of raw ''asset_type'' of None \<Rightarrow> PNone | Some v \<Rightarrow> v),
            (''conditions'', PList cs),
            (''actions'', PList acts),
            (''metadata'', PDict
               [(''created_at'', PStr (created_iso clk)),
                (''updated_at'', PStr (updated_iso clk)),
                (''source'', PStr ''atlan''),
                (''version'', PStr ''1.0'')])]" .
  from raw have raw': "(case map_of raw ''conditions'' of None \<Rightarrow> PList [] | Some v \<Rightarrow> v) = PList rcs"
    "(case map_of raw ''actions'' of None \<Rightarrow> PList [] | Some v \<Rightarrow> v) = PList racts"
    by (simp_all add: dict_get_def)
  from t r raw' c a show "\<exists>rule rcs racts cs acts.
         transform_security_rule render clk raw = Inr rule \<and> is_rule rule \<and>
         (case map_of raw ''conditions'' of None \<Rightarrow> PList [] | Some v \<Rightarrow> v) = PList rcs \<and>
         (case map_of raw ''actions'' of None \<Rightarrow> PList [] | Some v \<Rightarrow> v) = PList racts \<and>
         list_all2 (\<lambda>rc c. \<exists>d f op v.
             rc = PDict d \<and> map_of d ''field'' = Some f \<and> map_of d ''operator'' = Some op \<and>
             map_of d ''value'' = Some v \<and>
             c = PDict
               [(''field'', f), (''operator'', op), (''value'', v),
                (''metadata'', PDict
                   [(''description'',
                     case map_of d ''description'' of None \<Rightarrow> PStr '''' | Some x \<Rightarrow> x),
                    (''severity'',
                     case map_of d ''severity'' of None \<Rightarrow> PStr ''medium'' | Some x \<Rightarrow> x)])])
           rcs cs \<and>
         list_all2 (\<lambda>ra a. \<exists>d t.
             ra = PDict d \<and> map_of d ''type'' = Some t \<and>
             a = PDict
               [(''type'', t),
                (''parameters'',
                 case map_of d ''parameters'' of None \<Rightarrow> PDict [] | Some x \<Rightarrow> x),
                (''metadata'', PDict
                   [(''description'',
                     case map_of d ''description'' of None \<Rightarrow> PStr '''' | Some x \<Rightarrow> x),
                    (''priority'',
                     case map_of d ''priority'' of None \<Rightarrow> PStr ''normal'' | Some x \<Rightarrow> x)])])
           racts acts \<and>
         rule =
           [(''rule_id'',
             case map_of raw ''rule_id'' of None \<Rightarrow> PStr (''rule_'' @ id_stamp clk) | Some v \<Rightarrow> v),
            (''rule_type'', rt),
            (''asset_id'', case map_of raw ''asset_id'' of None \<Rightarrow> PNone | Some v \<Rightarrow> v),
            (''asset_type'', case map_of raw ''asset_type'' of None \<Rightarrow> PNone | Some v \<Rightarrow> v),
            (''conditions'', PList cs),
            (''actions'', PList acts),
            (''metadata'', PDict
               [(''created_at'', PStr (created_iso clk)),
                (''updated_at'', PStr (updated_iso clk)),
                (''source'', PStr ''atlan''),
                (''version'', PStr ''1.0'')])]"
    by blast
qed

theorem transform_rule_type_gate_witness:
  "transform_security_rule render_mark clock_noon [(''asset_id'', PStr ''a1'')] =
     Inl (ValueError ''Missing required field: rule_type'') \<and>
   transform_security_rule render_mark clock_noon [(''rule_type'', PStr ''HIPAA'')] =
     Inl (ValueError ''Unsupported rule type: HIPAA'') \<and>
   transform_security_rule render_mark clock_noon [(''rule_type'', PInt 7)] =
     Inl (ValueError ''Unsupported rule type: <value>'') \<and>
   well_formed_raw sample_raw \<and>
   transform_security_rule render_mark clock_noon sample_raw = Inr sample_rule \<and>
   is_rule sample_rule"
proof -
  have wf: "well_formed_raw sample_raw"
    by (simp add: well_formed_raw_def sample_raw_def dict_get_def)
  have rt: "map_of sample_raw ''rule_type'' = Some (PStr ''PII'')"
    by (simp add: sample_raw_def)
  from transform_rule_type_gate [of sample_raw render_mark clock_noon] wf rt
  obtain rule where "transform_security_rule render_mark clock_noon sample_raw = Inr rule"
    "is_rule rule"
    by auto
  with sample_transform have "transform_security_rule render_mark clock_noon sample_raw =
      Inr sample_rule \<and> is_rule sample_rule"
    by simp
  then show ?thesis
    using transform_rule_type_gate [of "[(''asset_id'', PStr ''a1'')]" render_mark clock_noon]
      transform_rule_type_gate [of "[(''rule_type'', PStr ''HIPAA'')]" render_mark clock_noon]
      transform_rule_type_gate [of "[(''rule_type'', PInt 7)]" render_mark clock_noon] wf
    by (simp add: render_mark_def)
qed

subsection \<open>C2: the conditions of the Snowflake policy\<close>

text \<open>
  C2. For every rule that \<open>transform_security_rule\<close> returns, the Snowflake policy has a
  list of conditions as long as the rule's, and its condition at each index is the record of
  \<open>column\<close>, \<open>operator\<close> and \<open>value\<close> made of the \<open>field\<close>, \<open>operator\<close> and \<open>value\<close> of the
  rule's condition at that index.
\<close>

theorem snowflake_conditions_round_trip:
  assumes "transform_security_rule render clk raw = Inr rule"
  shows "\<exists>cs policy fcs.
     map_of rule ''conditions'' = Some (PList cs) \<and>
     format_for_downstream render rule ''snowflake'' = Inr policy \<and>
     map_of policy ''conditions'' = Some (PList fcs) \<and>
     length fcs = length cs \<and>
     (\<forall>i<length cs. \<exists>f op v.
        subscript (cs ! i) ''field'' = Inr f \<and>
        subscript (cs ! i) ''operator'' = Inr op \<and>
        subscript (cs ! i) ''value'' = Inr v \<and>
        fcs ! i = PDict [(''column'', f), (''operator'', op), (''value'', v)])"
proof -
  have "is_rule rule" using assms by (rule transform_is_rule)
  from is_rule_formats [OF this, of render] obtain rid cs acts fcs facts where
    cs: "map_of rule ''conditions'' = Some (PList cs)"
    and "map_of rule ''actions'' = Some (PList acts)"
    and rel: "list_all2 (\<lambda>c y. format_condition c = Inr y) cs fcs"
    and fmt: "format_for_snowflake render rule = Inr
         [(''type'', PStr ''snowflake_policy''),
          (''name'', PStr (''atlan_'' @ py_str render rid)),
          (''database'', dict_get rule ''database'' (PStr ''PUBLIC'')),
          (''schema'', dict_get rule ''schema'' (PStr ''PUBLIC'')),
          (''table'', dict_get rule ''table'' PNone),
          (''conditions'', PList fcs),
          (''actions'', PList facts)]"
    by blast
  have len: "length fcs = length cs" using rel by (simp add: list_all2_lengthD)
  have each: "\<forall>i<length cs. \<exists>f op v.
        subscript (cs ! i) ''field'' = Inr f \<and>
        subscript (cs ! i) ''operator'' = Inr op \<and>
        subscript (cs ! i) ''value'' = Inr v \<and>
        fcs ! i = PDict [(''column'', f), (''operator'', op), (''value'', v)]"
  proof (intro allI impI)
    fix i assume "i < length cs"
    with rel have "format_condition (cs ! i) = Inr (fcs ! i)" by (auto dest: list_all2_nthD)
    from format_condition_Inr [OF this] show "\<exists>f op v.
        subscript (cs ! i) ''field'' = Inr f \<and>
        subscript (cs ! i) ''operator'' = Inr op \<and>
        subscript (cs ! i) ''value'' = Inr v \<and>
        fcs ! i = PDict [(''column'', f), (''operator'', op), (''value'', v)]" .
  qed
  have "format_for_downstream render rule ''snowflake'' = Inr
         [(''type'', PStr ''snowflake_policy''),
          (''name'', PStr (''atlan_'' @ py_str render rid)),
          (''database'', dict_get rule ''database'' (PStr ''PUBLIC'')),
          (''schema'', dict_get rule ''schema'' (PStr ''PUBLIC'')),
          (''table'', dict_get rule ''table'' PNone),
          (''conditions'', PList fcs),
          (''actions'', PList facts)]"
    using fmt by (simp add: format_for_downstream_def)
  with cs len each show ?thesis by force
qed

theorem snowflake_conditions_round_trip_witness:
  "transform_security_rule render_mark clock_noon sample_raw = Inr sample_rule \<and>
   (\<exists>cs policy fcs.
     map_of sample_rule ''conditions'' = Some (PList cs) \<and>
     format_for_downstream render_mark sample_rule ''snowflake'' = Inr policy \<and>
     map_of policy ''conditions'' = Some (PList fcs) \<and>
     length fcs = length cs \<and>
     (\<forall>i<length cs. \<exists>f op v.
        subscript (cs ! i) ''field'' = Inr f \<and>
        subscript (cs ! i) ''operator'' = Inr op \<and>
        subscript (cs ! i) ''value'' = Inr v \<and>
        fcs ! i = PDict [(''column'', f), (''operator'', op), (''value'', v)]))"
  using snowflake_conditions_round_trip [OF sample_transform] sample_transform by simp

subsection \<open>C3: a condition that lacks a key\<close>

text \<open>
  C3 (as amended). For every raw input whose conditions are a sequence of mappings, one of
  which lacks \<open>field\<close>, \<open>operator\<close> or \<open>value\<close>, \<open>transform_security_rule\<close> raises a
  \<open>ValueError\<close>; when the rule type of the input is supported, its message is the fixed text
  "Invalid condition format", whichever keys are missing.
\<close>

theorem incomplete_condition_rejected:
  assumes "map_of raw ''conditions'' = Some (PList cs)"
    and "list_all is_mapping cs"
    and "list_ex (\<lambda>c. \<not> has_keys [''field'', ''operator'', ''value''] c) cs"
  shows "\<exists>msg. transform_security_rule render clk raw = Inl (ValueError msg) \<and>
     ((\<exists>rt. map_of raw ''rule_type'' = Some rt \<and> rt \<in> set supported_rule_types) \<longrightarrow>
        msg = ''Invalid condition format'')"
proof -
  have "transform_conditions (dict_get raw ''conditions'' (PList [])) =
      Inl (ValueError ''Invalid condition format'')"
    using assms by (simp add: transform_conditions_def dict_get_def bind_exn_simps
        incomplete_condition_loop)
  then show ?thesis
    by (auto simp: transform_security_rule_def bind_exn_simps split: option.splits)
qed

theorem incomplete_condition_rejected_witness:
  "map_of raw_without_field ''conditions'' =
     Some (PList [PDict [(''operator'', PStr ''contains''), (''value'', PStr ''@'')]]) \<and>
   list_all is_mapping [PDict [(''operator'', PStr ''contains''), (''value'', PStr ''@'')]] \<and>
   list_ex (\<lambda>c. \<not> has_keys [''field'', ''operator'', ''value''] c)
     [PDict [(''operator'', PStr ''contains''), (''value'', PStr ''@'')]] \<and>
   map_of raw_without_field ''rule_type'' = Some (PStr ''PII'') \<and>
   PStr ''PII'' \<in> set supported_rule_types \<and>
   transform_security_rule render_mark clock_noon raw_without_field =
     Inl (ValueError ''Invalid condition format'')"
proof -
  have c: "map_of raw_without_field ''conditions'' =
      Some (PList [PDict [(''operator'', PStr ''contains''), (''value'', PStr ''@'')]])"
    and r: "map_of raw_without_field ''rule_type'' = Some (PStr ''PII'')"
    by (simp_all add: raw_without_field_def)
  have m: "list_all is_mapping [PDict [(''operator'', PStr ''contains''), (''value'', PStr ''@'')]]"
    by simp
  have e: "list_ex (\<lambda>c. \<not> has_keys [''field'', ''operator'', ''value''] c)
     [PDict [(''operator'', PStr ''contains''), (''value'', PStr ''@'')]]"
    by simp
  have s: "PStr ''PII'' \<in> set supported_rule_types"
    by (simp add: supported_rule_types_def)
  from incomplete_condition_rejected [OF c m e, of render_mark clock_noon] r s c m e
  show ?thesis by auto
qed

text \<open>
  The claim as first stated asks that the message name the missing keys. A condition without
  \<open>field\<close> and a condition without \<open>value\<close> give the same message, and the message
  contains neither word.
\<close>

theorem condition_error_message_counterexample:
  "transform_security_rule render_mark clock_noon raw_without_field =
     Inl (ValueError ''Invalid condition format'') \<and>
   transform_security_rule render_mark clock_noon raw_without_value =
     Inl (ValueError ''Invalid condition format'') \<and>
   \<not> sublist ''field'' ''Invalid condition format'' \<and>
   \<not> sublist ''value'' ''Invalid condition format''"
  by (simp add: transform_security_rule_def raw_without_field_def raw_without_value_def
      supported_rule_types_def dict_get_def transform_conditions_def transform_condition_def
      bind_exn_def sublist_code(3))

subsection \<open>C4: the shape of canonical conditions and actions\<close>

text \<open>
  C4 (as amended). In the rule that \<open>transform_security_rule\<close> returns, each condition is
  a record with the fields \<open>field\<close>, \<open>operator\<close>, \<open>value\<close> and \<open>metadata\<close>, where \<open>metadata\<close>
  is a record of \<open>description\<close> and \<open>severity\<close>: those of the raw condition, and the empty
  string and \<open>medium\<close> where the raw condition has none. Each action is a record with the
  fields \<open>type\<close>, \<open>parameters\<close> and \<open>metadata\<close>, where \<open>parameters\<close> defaults to the empty
  mapping and \<open>metadata\<close> is a record of \<open>description\<close> and \<open>priority\<close>, which default to the
  empty string and \<open>normal\<close>.
\<close>

theorem canonical_items_nest_metadata:
  assumes "transform_security_rule render clk raw = Inr rule"
  shows "\<exists>rcs racts cs acts.
     py_iter (dict_get raw ''conditions'' (PList [])) = Inr rcs \<and>
     py_iter (dict_get raw ''actions'' (PList [])) = Inr racts \<and>
     map_of rule ''conditions'' = Some (PList cs) \<and>
     map_of rule ''actions'' = Some (PList acts) \<and>
     list_all2 (\<lambda>rc c. \<exists>d f op v.
         rc = PDict d \<and> map_of d ''field'' = Some f \<and> map_of d ''operator'' = Some op \<and>
         map_of d ''value'' = Some v \<and>
         c = PDict
           [(''field'', f), (''operator'', op), (''value'', v),
            (''metadata'', PDict
               [(''description'', dict_get d ''description'' (PStr '''')),
                (''severity'', dict_get d ''severity'' (PStr ''medium''))])]) rcs cs \<and>
     list_all2 (\<lambda>ra a. \<exists>d t.
         ra = PDict d \<and> map_of d ''type'' = Some t \<and>
         a = PDict
           [(''type'', t),
            (''parameters'', dict_get d ''parameters'' (PDict [])),
            (''metadata'', PDict
               [(''description'', dict_get d ''description'' (PStr '''')),
                (''priority'', dict_get d ''priority'' (PStr ''normal''))])]) racts acts"
proof -
  from transform_security_rule_Inr [OF assms] obtain rt cs acts where
    "map_of raw ''rule_type'' = Some rt"
    and cs: "transform_conditions (dict_get raw ''conditions'' (PList [])) = Inr cs"
    and acts: "transform_actions (dict_get raw ''actions'' (PList [])) = Inr acts"
    and rule: "map_of rule ''conditions'' = Some (PList cs)"
      "map_of rule ''actions'' = Some (PList acts)"
    by auto
  from cs obtain rcs where rcs: "py_iter (dict_get raw ''conditions'' (PList [])) = Inr rcs"
    "list_all2 (\<lambda>x z. transform_condition x = Inr z) rcs cs"
    by (auto simp: transform_conditions_Inr)
  from acts obtain racts where racts: "py_iter (dict_get raw ''actions'' (PList [])) = Inr racts"
    "list_all2 (\<lambda>x z. transform_action x = Inr z) racts acts"
    by (auto simp: transform_actions_Inr)
  from rcs(2) have 1: "list_all2 (\<lambda>rc c. \<exists>d f op v.
         rc = PDict d \<and> map_of d ''field'' = Some f \<and> map_of d ''operator'' = Some op \<and>
         map_of d ''value'' = Some v \<and>
         c = PDict
           [(''field'', f), (''operator'', op), (''value'', v),
            (''metadata'', PDict
               [(''description'', dict_get d ''description'' (PStr '''')),
                (''severity'', dict_get d ''severity'' (PStr ''medium''))])]) rcs cs"
    by (rule list_all2_mono) (erule transform_condition_Inr)
  from racts(2) have 2: "list_all2 (\<lambda>ra a. \<exists>d t.
         ra = PDict d \<and> map_of d ''type'' = Some t \<and>
         a = PDict
           [(''type'', t),
            (''parameters'', dict_get d ''parameters'' (PDict [])),
            (''metadata'', PDict
               [(''description'', dict_get d ''description'' (PStr '''')),
                (''priority'', dict_get d ''priority'' (PStr ''normal''))])]) racts acts"
    by (rule list_all2_mono) (erule transform_action_Inr)
  from rcs(1) racts(1) rule 1 2 show ?thesis by blast
qed

theorem canonical_items_nest_metadata_witness:
  "transform_security_rule render_mark clock_noon sample_raw = Inr sample_rule \<and>
   (\<exists>rcs racts cs acts.
     py_iter (dict_get sample_raw ''conditions'' (PList [])) = Inr rcs \<and>
     py_iter (dict_get sample_raw ''actions'' (PList [])) = Inr racts \<and>
     map_of sample_rule ''conditions'' = Some (PList cs) \<and>
     map_of sample_rule ''actions'' = Some (PList acts) \<and>
     list_all2 (\<lambda>rc c. \<exists>d f op v.
         rc = PDict d \<and> map_of d ''field'' = Some f \<and> map_of d ''operator'' = Some op \<and>
         map_of d ''value'' = Some v \<and>
         c = PDict
           [(''field'', f), (''operator'', op), (''value'', v),
            (''metadata'', PDict
               [(''description'', dict_get d ''description'' (PStr '''')),
                (''severity'', dict_get d ''severity'' (PStr ''medium''))])]) rcs cs \<and>
     list_all2 (\<lambda>ra a. \<exists>d t.
         ra = PDict d \<and> map_of d ''type'' = Some t \<and>
         a = PDict
           [(''type'', t),
            (''parameters'', dict_get d ''parameters'' (PDict [])),
            (''metadata'', PDict
               [(''description'', dict_get d ''description'' (PStr '''')),
                (''priority'', dict_get d ''priority'' (PStr ''normal''))])]) racts acts)"
  using canonical_items_nest_metadata [OF sample_transform] sample_transform by simp

text \<open>
  The claim as first stated has \<open>description\<close>, \<open>severity\<close> and \<open>priority\<close> as fields of the
  condition and of the action. In the rule returned for the end-to-end scenario the condition
  has no field \<open>severity\<close> or \<open>description\<close> and the action no field \<open>priority\<close>: reading
  them raises a \<open>KeyError\<close>.
\<close>

theorem flat_condition_fields_counterexample:
  "transform_security_rule render_mark clock_noon sample_raw = Inr sample_rule \<and>
   map_of sample_rule ''conditions'' = Some (PList
     [PDict [(''field'', PStr ''email''), (''operator'', PStr ''contains''),
             (''value'', PStr ''@''),
             (''metadata'', PDict [(''description'', PStr ''''), (''severity'', PStr ''medium'')])]]) \<and>
   subscript
     (PDict [(''field'', PStr ''email''), (''operator'', PStr ''contains''),
             (''value'', PStr ''@''),
             (''metadata'', PDict [(''description'', PStr ''''), (''severity'', PStr ''medium'')])])
     ''severity'' = Inl (KeyError ''severity'') \<and>
   subscript
     (PDict [(''field'', PStr ''email''), (''operator'', PStr ''contains''),
             (''value'', PStr ''@''),
             (''metadata'', PDict [(''description'', PStr ''''), (''severity'', PStr ''medium'')])])
     ''description'' = Inl (KeyError ''description'') \<and>
   map_of sample_rule ''actions'' = Some (PList
     [PDict [(''type'', PStr ''mask''),
             (''parameters'', PDict [(''mask_type'', PStr ''email'')]),
             (''metadata'', PDict [(''description'', PStr ''''), (''priority'', PStr ''normal'')])]]) \<and>
   subscript
     (PDict [(''type'', PStr ''mask''),
             (''parameters'', PDict [(''mask_type'', PStr ''email'')]),
             (''metadata'', PDict [(''description'', PStr ''''), (''priority'', PStr ''normal'')])])
     ''priority'' = Inl (KeyError ''priority'')"
  using sample_transform by (simp add: sample_rule_def)

subsection \<open>C5: the validator as a yes/no gate\<close>

text \<open>
  C5 (as amended). \<open>validate_rule\<close> returns a boolean and raises nothing on every rule
  mapping whose conditions and actions, where present, are sequences of mappings; it returns
  \<open>False\<close> on every rule mapping that lacks one of the keys \<open>rule_type\<close>, \<open>asset_id\<close>,
  \<open>conditions\<close>, \<open>actions\<close>, whatever else it holds; and it returns \<open>True\<close> on the
  minimally complete rule.
\<close>

theorem validate_rule_is_a_gate:
  "(typed_rule rule \<longrightarrow> (\<exists>b. validate_rule rule = Inr b)) \<and>
   ((\<exists>k \<in> {''rule_type'', ''asset_id'', ''conditions'', ''actions''}. map_of rule k = None) \<longrightarrow>
      validate_rule rule = Inr False) \<and>
   validate_rule
     [(''rule_type'', PStr ''PII''), (''asset_id'', PStr ''a1''),
      (''conditions'', PList []), (''actions'', PList [])] = Inr True"
proof (intro conjI impI)
  assume typed: "typed_rule rule"
  show "\<exists>b. validate_rule rule = Inr b"
  proof (cases "list_ex (\<lambda>field. map_of rule field = None) required_fields")
    case True
    then have "validate_rule rule = Inr False" by (simp add: validate_rule_def)
    then show ?thesis by blast
  next
    case False
    then obtain rt vc va where k: "map_of rule ''rule_type'' = Some rt"
      "map_of rule ''conditions'' = Some vc" "map_of rule ''actions'' = Some va"
      by (auto simp: required_fields_def)
    with typed have "sequence_of is_mapping vc" "sequence_of is_mapping va"
      by (simp_all add: typed_rule_def)
    then obtain cs acts where v: "vc = PList cs" "list_all is_mapping cs"
      "va = PList acts" "list_all is_mapping acts"
      by (blast dest: sequence_of_PList)
    have "validate_rule rule =
        Inr (rt \<in> set supported_rule_types \<and>
             list_all (has_keys [''field'', ''operator'', ''value'']) cs \<and>
             list_all (has_keys [''type'']) acts)"
      using False k v
      by (simp add: validate_rule_def bind_exn_simps validate_conditions_loop_mappings
          validate_actions_loop_mappings)
    then show ?thesis by blast
  qed
next
  assume "\<exists>k \<in> {''rule_type'', ''asset_id'', ''conditions'', ''actions''}. map_of rule k = None"
  then have "list_ex (\<lambda>field. map_of rule field = None) required_fields"
    by (auto simp: required_fields_def)
  then show "validate_rule rule = Inr False" by (simp add: validate_rule_def)
next
  show "validate_rule
     [(''rule_type'', PStr ''PII''), (''asset_id'', PStr ''a1''),
      (''conditions'', PList []), (''actions'', PList [])] = Inr True"
    by (simp add: validate_rule_def required_fields_def supported_rule_types_def bind_exn_def)
qed

theorem validate_rule_is_a_gate_witness:
  "typed_rule sample_rule \<and> (\<exists>b. validate_rule sample_rule = Inr b) \<and>
   map_of [(''rule_type'', PStr ''PII''), (''asset_id'', PStr ''a1''),
           (''conditions'', PList [PInt 5])] ''actions'' = None \<and>
   validate_rule [(''rule_type'', PStr ''PII''), (''asset_id'', PStr ''a1''),
                  (''conditions'', PList [PInt 5])] = Inr False"
proof -
  have t: "typed_rule sample_rule"
    by (simp add: typed_rule_def sample_rule_def)
  show ?thesis
    using validate_rule_is_a_gate [of sample_rule] t
      validate_rule_is_a_gate [of "[(''rule_type'', PStr ''PII''), (''asset_id'', PStr ''a1''),
           (''conditions'', PList [PInt 5])]"]
    by simp
qed

text \<open>
  The claim as first stated has \<open>validate_rule\<close> raise on no rule at all. On a rule that has
  the four keys and whose \<open>conditions\<close> are \<open>None\<close>, the loop over the conditions raises a
  \<open>TypeError\<close>.
\<close>

theorem validate_rule_raises_counterexample:
  "validate_rule
     [(''rule_type'', PStr ''PII''), (''asset_id'', PStr ''a1''),
      (''conditions'', PNone), (''actions'', PList [])] = Inl TypeError"
  by (simp add: validate_rule_def required_fields_def supported_rule_types_def bind_exn_def)

subsection \<open>C6: unknown downstream targets\<close>

text \<open>
  C6. For every rule and every target other than \<open>snowflake\<close> and \<open>databricks\<close>,
  \<open>format_for_downstream\<close> raises a \<open>ValueError\<close> that names the target (the
  unsupported-target error of the code); it returns no policy.
\<close>

theorem format_unknown_target:
  "target \<notin> {''snowflake'', ''databricks''} \<Longrightarrow>
     format_for_downstream render rule target =
       Inl (ValueError (''Unsupported target system: '' @ target))"
  by (simp add: format_for_downstream_def)

theorem format_unknown_target_witness:
  "''unknown_target'' \<notin> {''snowflake'', ''databricks''} \<and>
   format_for_downstream render_mark sample_rule ''unknown_target'' =
     Inl (ValueError ''Unsupported target system: unknown_target'')"
  using format_unknown_target [of "''unknown_target''" render_mark sample_rule] by simp

subsection \<open>C7: the fan-out over the downstream targets\<close>

text \<open>
  C7. \<open>_format_for_downstream_systems\<close> raises nothing, whatever the formatter does for
  either target. A target whose formatting succeeds has its policy in the returned mapping,
  also when the other target fails; a target whose formatting fails is absent from the
  mapping and its exception is printed; when both fail the mapping returned is empty.
\<close>

theorem fan_out_isolates_failures:
  "\<exists>downstream printed.
     format_for_downstream_systems formatter rule = Inr (downstream, printed) \<and>
     (\<forall>p. formatter rule ''snowflake'' = Inr p \<longrightarrow>
        map_of downstream ''snowflake'' = Some (PDict p)) \<and>
     (\<forall>p. formatter rule ''databricks'' = Inr p \<longrightarrow>
        map_of downstream ''databricks'' = Some (PDict p)) \<and>
     (\<forall>e. formatter rule ''snowflake'' = Inl e \<longrightarrow>
        map_of downstream ''snowflake'' = None \<and>
        (''Error formatting for Snowflake: '', e) \<in> set printed) \<and>
     (\<forall>e. formatter rule ''databricks'' = Inl e \<longrightarrow>
        map_of downstream ''databricks'' = None \<and>
        (''Error formatting for Databricks: '', e) \<in> set printed) \<and>
     ((\<exists>e. formatter rule ''snowflake'' = Inl e) \<and> (\<exists>e. formatter rule ''databricks'' = Inl e) \<longrightarrow>
        downstream = [])"
  by (cases "formatter rule ''snowflake''"; cases "formatter rule ''databricks''")
    (simp_all add: format_for_downstream_systems_def try_except_def bind_exn_def)

theorem fan_out_isolates_failures_witness:
  "snowflake_down sample_rule ''snowflake'' = Inl (ValueError ''snowflake is down'') \<and>
   (\<exists>p downstream printed.
      snowflake_down sample_rule ''databricks'' = Inr p \<and>
      format_for_downstream_systems snowflake_down sample_rule = Inr (downstream, printed) \<and>
      map_of downstream ''databricks'' = Some (PDict p) \<and>
      map_of downstream ''snowflake'' = None \<and>
      (''Error formatting for Snowflake: '', ValueError ''snowflake is down'') \<in> set printed) \<and>
   format_for_downstream render_mark [] ''snowflake'' = Inl (KeyError ''rule_id'') \<and>
   format_for_downstream render_mark [] ''databricks'' = Inl (KeyError ''rule_id'') \<and>
   (\<exists>printed. format_for_downstream_systems (format_for_downstream render_mark) [] =
      Inr ([], printed))"
proof -
  have down: "snowflake_down sample_rule ''snowflake'' = Inl (ValueError ''snowflake is down'')"
    by (simp add: snowflake_down_def)
  obtain p where p: "snowflake_down sample_rule ''databricks'' = Inr p"
    using sample_formats by (auto simp: snowflake_down_def)
  have e1: "format_for_downstream render_mark [] ''snowflake'' = Inl (KeyError ''rule_id'')"
    and e2: "format_for_downstream render_mark [] ''databricks'' = Inl (KeyError ''rule_id'')"
    by (simp_all add: format_for_downstream_def format_for_snowflake_def
        format_for_databricks_def bind_exn_def)
  from fan_out_isolates_failures [of snowflake_down sample_rule] down p
  have "\<exists>p downstream printed.
      snowflake_down sample_rule ''databricks'' = Inr p \<and>
      format_for_downstream_systems snowflake_down sample_rule = Inr (downstream, printed) \<and>
      map_of downstream ''databricks'' = Some (PDict p) \<and>
      map_of downstream ''snowflake'' = None \<and>
      (''Error formatting for Snowflake: '', ValueError ''snowflake is down'') \<in> set printed"
    by auto
  moreover from fan_out_isolates_failures [of "format_for_downstream render_mark" "[]"] e1 e2
  have "\<exists>printed. format_for_downstream_systems (format_for_downstream render_mark) [] =
      Inr ([], printed)"
    by auto
  ultimately show ?thesis using down e1 e2 by blast
qed

subsection \<open>C8: the Snowflake and Databricks policies\<close>

text \<open>
  C8. For every canonical rule, \<open>format_for_downstream\<close> for \<open>snowflake\<close> returns a policy
  of type \<open>snowflake_policy\<close> whose name is \<open>atlan_\<close> followed by the rule id, whose
  \<open>database\<close> and \<open>schema\<close> are those of the rule and \<open>PUBLIC\<close> where the rule has none; for
  \<open>databricks\<close> it returns a policy of type \<open>databricks_policy\<close> with the same name, table,
  conditions and actions, whose \<open>catalog\<close> is that of the rule and \<open>hive_metastore\<close> where the
  rule has none, and whose \<open>schema\<close> is that of the rule and \<open>default\<close> where it has none.
\<close>

theorem downstream_policy_shapes:
  assumes "is_rule rule"
  shows "\<exists>rid s d.
     map_of rule ''rule_id'' = Some rid \<and>
     format_for_downstream render rule ''snowflake'' = Inr s \<and>
     map fst s = [''type'', ''name'', ''database'', ''schema'', ''table'', ''conditions'', ''actions''] \<and>
     map_of s ''type'' = Some (PStr ''snowflake_policy'') \<and>
     map_of s ''name'' = Some (PStr (''atlan_'' @ py_str render rid)) \<and>
     map_of s ''database'' =
       Some (case map_of rule ''database'' of None \<Rightarrow> PStr ''PUBLIC'' | Some v \<Rightarrow> v) \<and>
     map_of s ''schema'' =
       Some (case map_of rule ''schema'' of None \<Rightarrow> PStr ''PUBLIC'' | Some v \<Rightarrow> v) \<and>
     format_for_downstream render rule ''databricks'' = Inr d \<and>
     map fst d = [''type'', ''name'', ''catalog'', ''schema'', ''table'', ''conditions'', ''actions''] \<and>
     map_of d ''type'' = Some (PStr ''databricks_policy'') \<and>
     map_of d ''name'' = Some (PStr (''atlan_'' @ py_str render rid)) \<and>
     map_of d ''catalog'' =
       Some (case map_of rule ''catalog'' of None \<Rightarrow> PStr ''hive_metastore'' | Some v \<Rightarrow> v) \<and>
     map_of d ''schema'' =
       Some (case map_of rule ''schema'' of None \<Rightarrow> PStr ''default'' | Some v \<Rightarrow> v) \<and>
     map_of d ''table'' = map_of s ''table'' \<and>
     map_of d ''conditions'' = map_of s ''conditions'' \<and>
     map_of d ''actions'' = map_of s ''actions''"
proof -
  from is_rule_formats [OF assms, of render] obtain rid cs acts fcs facts where
    rid: "map_of rule ''rule_id'' = Some rid"
    and "map_of rule ''conditions'' = Some (PList cs)"
    and "map_of rule ''actions'' = Some (PList acts)"
    and s: "format_for_snowflake render rule = Inr
         [(''type'', PStr ''snowflake_policy''),
          (''name'', PStr (''atlan_'' @ py_str render rid)),
          (''database'', dict_get rule ''database'' (PStr ''PUBLIC'')),
          (''schema'', dict_get rule ''schema'' (PStr ''PUBLIC'')),
          (''table'', dict_get rule ''table'' PNone),
          (''conditions'', PList fcs),
          (''actions'', PList facts)]"
    and d: "format_for_databricks render rule = Inr
         [(''type'', PStr ''databricks_policy''),
          (''name'', PStr (''atlan_'' @ py_str render rid)),
          (''catalog'', dict_get rule ''catalog'' (PStr ''hive_metastore'')),
          (''schema'', dict_get rule ''schema'' (PStr ''default'')),
          (''table'', dict_get rule ''table'' PNone),
          (''conditions'', PList fcs),
          (''actions'', PList facts)]"
    by blast
  show ?thesis
    using rid s d by (simp add: format_for_downstream_def dict_get_def)
qed

theorem downstream_policy_shapes_witness:
  "is_rule sample_rule \<and>
   map_of sample_rule ''rule_id'' = Some (PStr ''rule_20240101120000'') \<and>
   (\<exists>s d.
     format_for_downstream render_mark sample_rule ''snowflake'' = Inr s \<and>
     map_of s ''type'' = Some (PStr ''snowflake_policy'') \<and>
     map_of s ''name'' = Some (PStr ''atlan_rule_20240101120000'') \<and>
     map_of s ''database'' = Some (PStr ''PUBLIC'') \<and>
     map_of s ''schema'' = Some (PStr ''PUBLIC'') \<and>
     format_for_downstream render_mark sample_rule ''databricks'' = Inr d \<and>
     map_of d ''type'' = Some (PStr ''databricks_policy'') \<and>
     map_of d ''name'' = Some (PStr ''atlan_rule_20240101120000'') \<and>
     map_of d ''catalog'' = Some (PStr ''hive_metastore'') \<and>
     map_of d ''schema'' = Some (PStr ''default''))"
proof -
  have rid: "map_of sample_rule ''rule_id'' = Some (PStr ''rule_20240101120000'')"
    and none: "map_of sample_rule ''database'' = None" "map_of sample_rule ''schema'' = None"
      "map_of sample_rule ''catalog'' = None"
    by (simp_all add: sample_rule_def)
  from downstream_policy_shapes [OF sample_is_rule, of render_mark] rid none sample_is_rule
  show ?thesis by auto
qed

subsection \<open>C9: transformed rules are valid\<close>

text \<open>
  C9. For every raw input on which \<open>transform_security_rule\<close> succeeds, \<open>validate_rule\<close>
  returns \<open>True\<close> on the rule it returned. So \<open>process_security_event\<close> never takes its
  branch that raises "Invalid security rule": on such an input it is the rest of the function,
  applied to the transformed rule.
\<close>

theorem transformed_rule_is_valid:
  assumes "transform_security_rule render clk raw = Inr rule"
  shows "validate_rule rule = Inr True \<and>
     process_security_event render clk store_metadata publish_to_eventbridge raw =
       store_and_fan_out render store_metadata publish_to_eventbridge rule"
proof -
  have "validate_rule rule = Inr True"
    using assms by (intro validate_is_rule transform_is_rule)
  then show ?thesis using assms
    by (simp add: process_security_event_def bind_exn_simps)
qed

theorem transformed_rule_is_valid_witness:
  "transform_security_rule render_mark clock_noon sample_raw = Inr sample_rule \<and>
   validate_rule sample_rule = Inr True \<and>
   process_security_event render_mark clock_noon (\<lambda>item. Inr (dict_get item ''event_id'' PNone))
       (\<lambda>event. Inr ()) sample_raw =
     store_and_fan_out render_mark (\<lambda>item. Inr (dict_get item ''event_id'' PNone))
       (\<lambda>event. Inr ()) sample_rule"
  using transformed_rule_is_valid [OF sample_transform] sample_transform by simp

subsection \<open>C10: transforming a transformed rule\<close>

text \<open>
  C10. Let \<open>transform_security_rule\<close> succeed on a raw input and return the rule that is
  stored, and let the update path merge incoming fields into it (fields other than the rule
  type, the conditions and the actions; none at all is the plain second application) and
  transform the result. The second transformation succeeds. At every index the first rule
  holds the description and the severity of the raw condition in its \<open>metadata\<close> record, and
  the second rule holds the empty string and \<open>medium\<close> there; likewise the first rule holds
  the description and the priority of the raw action, and the second the empty string and
  \<open>normal\<close>. So a description, severity or priority that is not the default is lost.
\<close>

theorem second_transform_resets_metadata:
  assumes "transform_security_rule render clk raw = Inr stored"
    and "map_of incoming ''rule_type'' = None"
    and "map_of incoming ''conditions'' = None"
    and "map_of incoming ''actions'' = None"
  shows "\<exists>rcs racts cs1 acts1 updated cs2 acts2.
     py_iter (dict_get raw ''conditions'' (PList [])) = Inr rcs \<and>
     py_iter (dict_get raw ''actions'' (PList [])) = Inr racts \<and>
     map_of stored ''conditions'' = Some (PList cs1) \<and>
     map_of stored ''actions'' = Some (PList acts1) \<and>
     transform_security_rule render clk' (dict_merge stored incoming) = Inr updated \<and>
     map_of updated ''conditions'' = Some (PList cs2) \<and>
     map_of updated ''actions'' = Some (PList acts2) \<and>
     length cs1 = length rcs \<and> length cs2 = length rcs \<and>
     length acts1 = length racts \<and> length acts2 = length racts \<and>
     (\<forall>i<length rcs. \<exists>d s.
        py_get (rcs ! i) ''description'' (PStr '''') = Inr d \<and>
        py_get (rcs ! i) ''severity'' (PStr ''medium'') = Inr s \<and>
        subscript (cs1 ! i) ''metadata'' =
          Inr (PDict [(''description'', d), (''severity'', s)]) \<and>
        subscript (cs2 ! i) ''metadata'' =
          Inr (PDict [(''description'', PStr ''''), (''severity'', PStr ''medium'')])) \<and>
     (\<forall>i<length racts. \<exists>d p.
        py_get (racts ! i) ''description'' (PStr '''') = Inr d \<and>
        py_get (racts ! i) ''priority'' (PStr ''normal'') = Inr p \<and>
        subscript (acts1 ! i) ''metadata'' =
          Inr (PDict [(''description'', d), (''priority'', p)]) \<and>
        subscript (acts2 ! i) ''metadata'' =
          Inr (PDict [(''description'', PStr ''''), (''priority'', PStr ''normal'')]))"
proof -
  from transform_security_rule_Inr [OF assms(1)] obtain rt cs1 acts1 where
    rt: "rt \<in> set supported_rule_types"
    and cs: "transform_conditions (dict_get raw ''conditions'' (PList [])) = Inr cs1"
    and acts: "transform_actions (dict_get raw ''actions'' (PList [])) = Inr acts1"
    and stored: "map_of stored ''rule_type'' = Some rt"
      "map_of stored ''conditions'' = Some (PList cs1)"
      "map_of stored ''actions'' = Some (PList acts1)"
    by auto
  from cs obtain rcs where rcs: "py_iter (dict_get raw ''conditions'' (PList [])) = Inr rcs"
    "list_all2 (\<lambda>x z. transform_condition x = Inr z) rcs cs1"
    by (auto simp: transform_conditions_Inr)
  from acts obtain racts where racts: "py_iter (dict_get raw ''actions'' (PList [])) = Inr racts"
    "list_all2 (\<lambda>x z. transform_action x = Inr z) racts acts1"
    by (auto simp: transform_actions_Inr)
  from two_pass_conditions [OF rcs(2)] obtain cs2 where
    cs2: "list_all2 (\<lambda>z z'. transform_condition z = Inr z') cs1 cs2"
    and c: "\<forall>i<length rcs. \<exists>d s.
        py_get (rcs ! i) ''description'' (PStr '''') = Inr d \<and>
        py_get (rcs ! i) ''severity'' (PStr ''medium'') = Inr s \<and>
        subscript (cs1 ! i) ''metadata'' =
          Inr (PDict [(''description'', d), (''severity'', s)]) \<and>
        subscript (cs2 ! i) ''metadata'' =
          Inr (PDict [(''description'', PStr ''''), (''severity'', PStr ''medium'')])"
    by blast
  from two_pass_actions [OF racts(2)] obtain acts2 where
    acts2: "list_all2 (\<lambda>z z'. transform_action z = Inr z') acts1 acts2"
    and a: "\<forall>i<length racts. \<exists>d p.
        py_get (racts ! i) ''description'' (PStr '''') = Inr d \<and>
        py_get (racts ! i) ''priority'' (PStr ''normal'') = Inr p \<and>
        subscript (acts1 ! i) ''metadata'' =
          Inr (PDict [(''description'', d), (''priority'', p)]) \<and>
        subscript (acts2 ! i) ''metadata'' =
          Inr (PDict [(''description'', PStr ''''), (''priority'', PStr ''normal'')])"
    by blast
  have merged: "map_of (dict_merge stored incoming) ''rule_type'' = Some rt"
    "map_of (dict_merge stored incoming) ''conditions'' = Some (PList cs1)"
    "map_of (dict_merge stored incoming) ''actions'' = Some (PList acts1)"
    using assms(2-4) stored by (simp_all add: map_of_dict_merge_absent)
  have t1: "transform_conditions (PList cs1) = Inr cs2"
    using cs2 by (simp add: transform_conditions_Inr)
  have t2: "transform_actions (PList acts1) = Inr acts2"
    using acts2 by (simp add: transform_actions_Inr)
  obtain updated where updated:
    "transform_security_rule render clk' (dict_merge stored incoming) = Inr updated"
    "map_of updated ''conditions'' = Some (PList cs2)"
    "map_of updated ''actions'' = Some (PList acts2)"
    using merged rt t1 t2
    by (simp add: transform_security_rule_def dict_get_def bind_exn_simps)
  have lens: "length cs1 = length rcs" "length cs2 = length rcs"
    "length acts1 = length racts" "length acts2 = length racts"
    using list_all2_lengthD [OF rcs(2)] list_all2_lengthD [OF cs2]
      list_all2_lengthD [OF racts(2)] list_all2_lengthD [OF acts2]
    by simp_all
  from rcs(1) racts(1) stored(2,3) updated lens c a show ?thesis by blast
qed

theorem second_transform_resets_metadata_witness:
  "(\<exists>stored updated c1 c2 a1 a2.
     transform_security_rule render_mark clock_noon annotated_raw = Inr stored \<and>
     map_of [(''asset_type'', PStr ''table'')] ''rule_type'' = None \<and>
     map_of [(''asset_type'', PStr ''table'')] ''conditions'' = None \<and>
     map_of [(''asset_type'', PStr ''table'')] ''actions'' = None \<and>
     transform_security_rule render_mark clock_noon
       (dict_merge stored [(''asset_type'', PStr ''table'')]) = Inr updated \<and>
     map_of stored ''conditions'' = Some (PList [c1]) \<and>
     map_of updated ''conditions'' = Some (PList [c2]) \<and>
     map_of stored ''actions'' = Some (PList [a1]) \<and>
     map_of updated ''actions'' = Some (PList [a2]) \<and>
     subscript c1 ''metadata'' =
       Inr (PDict [(''description'', PStr ''address column''), (''severity'', PStr ''high'')]) \<and>
     subscript c2 ''metadata'' =
       Inr (PDict [(''description'', PStr ''''), (''severity'', PStr ''medium'')]) \<and>
     subscript a1 ''metadata'' =
       Inr (PDict [(''description'', PStr ''hide it''), (''priority'', PStr ''high'')]) \<and>
     subscript a2 ''metadata'' =
       Inr (PDict [(''description'', PStr ''''), (''priority'', PStr ''normal'')]))"
proof -
  obtain stored where s: "transform_security_rule render_mark clock_noon annotated_raw = Inr stored"
    by (simp add: transform_security_rule_def annotated_raw_def supported_rule_types_def
        dict_get_def transform_conditions_def transform_actions_def transform_condition_def
        transform_action_def bind_exn_def)
  have i: "map_of [(''asset_type'', PStr ''table'')] ''rule_type'' = None"
    "map_of [(''asset_type'', PStr ''table'')] ''conditions'' = None"
    "map_of [(''asset_type'', PStr ''table'')] ''actions'' = None"
    by simp_all
  have r: "py_iter (dict_get annotated_raw ''conditions'' (PList [])) =
      Inr [PDict [(''field'', PStr ''email''), (''operator'', PStr ''contains''),
                 (''value'', PStr ''@''), (''description'', PStr ''address column''),
                 (''severity'', PStr ''high'')]]"
    "py_iter (dict_get annotated_raw ''actions'' (PList [])) =
      Inr [PDict [(''type'', PStr ''mask''), (''description'', PStr ''hide it''),
                 (''priority'', PStr ''high'')]]"
    by (simp_all add: annotated_raw_def dict_get_def)
  from second_transform_resets_metadata [OF s i, of clock_noon] obtain cs1 acts1 updated cs2 acts2
    where f: "map_of stored ''conditions'' = Some (PList cs1)"
      "map_of stored ''actions'' = Some (PList acts1)"
      "transform_security_rule render_mark clock_noon
         (dict_merge stored [(''asset_type'', PStr ''table'')]) = Inr updated"
      "map_of updated ''conditions'' = Some (PList cs2)"
      "map_of updated ''actions'' = Some (PList acts2)"
      "length cs1 = 1" "length cs2 = 1" "length acts1 = 1" "length acts2 = 1"
      "subscript (cs1 ! 0) ''metadata'' =
         Inr (PDict [(''description'', PStr ''address column''), (''severity'', PStr ''high'')])"
      "subscript (cs2 ! 0) ''metadata'' =
         Inr (PDict [(''description'', PStr ''''), (''severity'', PStr ''medium'')])"
      "subscript (acts1 ! 0) ''metadata'' =
         Inr (PDict [(''description'', PStr ''hide it''), (''priority'', PStr ''high'')])"
      "subscript (acts2 ! 0) ''metadata'' =
         Inr (PDict [(''description'', PStr ''''), (''priority'', PStr ''normal'')])"
    unfolding r by (auto simp: dict_get_def)
  have one: "xs = [xs ! 0]" if "length xs = 1" for xs :: "pyval list"
    using that by (cases xs) auto
  from f(6-9) have "cs1 = [cs1 ! 0]" "cs2 = [cs2 ! 0]" "acts1 = [acts1 ! 0]" "acts2 = [acts2 ! 0]"
    by (auto intro: one)
  with s i f show ?thesis by metis
qed

end
